theory Spec2Isabelle
  imports Complex_Main
begin

section \<open>Conventions of the embedding\<close>

text \<open>
  The development embeds \<^verbatim>\<open>safebench/gym_carla/replay_buffer.py\<close> and the class
  \<^verbatim>\<open>SAC\<close> of \<^verbatim>\<open>safebench/agent/rl/sac.py\<close>.

  \<^item> Tensor and array entries are real numbers: the arithmetic of the source is read
    exactly, without the rounding of 32-bit floats. Where the rounding decides a property
    (the range of an action), the arithmetic is an argument: see \<open>get_action_with\<close>.
  \<^item> A vector (one row of a batch) is a \<open>real list\<close>; a batch of vectors is a list of rows;
    a column of shape \<open>[B, 1]\<close> is a list with one real per batch element.
  \<^item> A Python exception is the left summand of \<open>error + 'a\<close>.
  \<^item> Random draws are read from an explicit source: the state \<open>rng\<close> holds the
    sequence of raw draws and the number of draws consumed so far.
\<close>

datatype error =
    KeyError string
  | ValueError
  | IndexError
  | ZeroDivisionError
  | RuntimeError

definition bnd :: "error + 'a \<Rightarrow> ('a \<Rightarrow> error + 'b) \<Rightarrow> error + 'b" where
  "bnd m f = (case m of Inl e \<Rightarrow> Inl e | Inr x \<Rightarrow> f x)"

type_synonym row = "real list"

text \<open>Python's \<^verbatim>\<open>xs[i]\<close> for a non-negative index.\<close>

definition py_get :: "'a list \<Rightarrow> nat \<Rightarrow> error + 'a" where
  "py_get xs i = (if i < length xs then Inr (xs ! i) else Inl IndexError)"

text \<open>Python's \<^verbatim>\<open>xs[i].append(v)\<close> on a list of lists.\<close>

definition py_append_at :: "'a list list \<Rightarrow> nat \<Rightarrow> 'a \<Rightarrow> error + 'a list list" where
  "py_append_at xss i v =
     (if i < length xss then Inr (xss[i := xss ! i @ [v]]) else Inl IndexError)"

subsection \<open>The random source\<close>

record rng =
  raw_ints :: "nat \<Rightarrow> nat"
  ints_used :: nat
  raw_normals :: "nat \<Rightarrow> real"
  normals_used :: nat

text \<open>
  \<^verbatim>\<open>np.random.randint(low, high, size=n)\<close> with \<open>low = 0\<close>: an empty request returns
  the empty array before the bounds are looked at; otherwise \<open>high \<le> 0\<close> raises
  \<^verbatim>\<open>ValueError\<close>, and each index is a raw draw reduced into \<open>[0, high)\<close>.
\<close>

definition randint :: "rng \<Rightarrow> nat \<Rightarrow> nat \<Rightarrow> error + (nat list \<times> rng)" where
  "randint g high n =
     (if n = 0 then Inr ([], g)
      else if high = 0 then Inl ValueError
      else Inr (map (\<lambda>k. raw_ints g (ints_used g + k) mod high) [0..<n],
                g\<lparr>ints_used := ints_used g + n\<rparr>))"

text \<open>
  A draw of \<^verbatim>\<open>Normal(mu, sigma).sample()\<close> for one batch of rows: every entry is
  \<open>mu + sigma * e\<close> with \<open>e\<close> the next standard-normal draw, rows in order.
\<close>

fun take_normals :: "(nat \<Rightarrow> real) \<Rightarrow> nat \<Rightarrow> nat list \<Rightarrow> row list" where
  "take_normals f p [] = []"
| "take_normals f p (n # ns) = map (\<lambda>k. f (p + k)) [0..<n] # take_normals f (p + n) ns"

definition Normal_sample :: "rng \<Rightarrow> row list \<Rightarrow> row list \<Rightarrow> row list \<times> rng" where
  "Normal_sample g mu sigma =
     (let eps = take_normals (raw_normals g) (normals_used g) (map length mu)
      in (map (\<lambda>(m, s, e). map (\<lambda>(mi, si, ei). mi + si * ei) (zip m (zip s e)))
              (zip mu (zip sigma eps)),
          g\<lparr>normals_used := normals_used g + sum_list (map length mu)\<rparr>))"

section \<open>The replay buffer\<close>

record ReplayBuffer =
  mode :: string
  buffer_capacity :: nat
  num_scenario :: nat
  buffer_len :: nat
  buffer_ego_actions :: "row list list"
  buffer_scenario_actions :: "row list list"
  buffer_obs :: "row list list"
  buffer_next_obs :: "row list list"
  buffer_rewards :: "real list list"
  buffer_dones :: "real list list"

definition ReplayBuffer_init :: "nat \<Rightarrow> string \<Rightarrow> nat \<Rightarrow> ReplayBuffer" where
  "ReplayBuffer_init n m cap =
     \<lparr> mode = m, buffer_capacity = cap, num_scenario = n, buffer_len = 0,
       buffer_ego_actions = replicate n [],
       buffer_scenario_actions = replicate n [],
       buffer_obs = replicate n [],
       buffer_next_obs = replicate n [],
       buffer_rewards = replicate n [],
       buffer_dones = replicate n [] \<rparr>"

text \<open>
  The argument of \<^verbatim>\<open>store\<close>: the seven positions of \<^verbatim>\<open>data_list\<close>; of each info
  record only \<^verbatim>\<open>scenario_id\<close> is read.
\<close>

record data_list =
  ego_actions :: "row list"
  scenario_actions :: "row list"
  obs :: "row list"
  next_obs :: "row list"
  rewards :: "real list"
  dones :: "real list"
  infos :: "nat list"

definition store_one :: "data_list \<Rightarrow> nat \<Rightarrow> ReplayBuffer \<Rightarrow> error + ReplayBuffer" where
  "store_one d s_i b =
     bnd (py_get (infos d) s_i) (\<lambda>sid.
     bnd (py_get (ego_actions d) s_i) (\<lambda>ea.
     bnd (py_append_at (buffer_ego_actions b) sid ea) (\<lambda>bea.
     bnd (py_get (scenario_actions d) s_i) (\<lambda>sa.
     bnd (py_append_at (buffer_scenario_actions b) sid sa) (\<lambda>bsa.
     bnd (py_get (obs d) s_i) (\<lambda>ob.
     bnd (py_append_at (buffer_obs b) sid ob) (\<lambda>bob.
     bnd (py_get (next_obs d) s_i) (\<lambda>nob.
     bnd (py_append_at (buffer_next_obs b) sid nob) (\<lambda>bnob.
     bnd (py_get (rewards d) s_i) (\<lambda>r.
     bnd (py_append_at (buffer_rewards b) sid r) (\<lambda>br.
     bnd (py_get (dones d) s_i) (\<lambda>dn.
     bnd (py_append_at (buffer_dones b) sid dn) (\<lambda>bd.
       Inr (b\<lparr> buffer_ego_actions := bea, buffer_scenario_actions := bsa,
               buffer_obs := bob, buffer_next_obs := bnob,
               buffer_rewards := br, buffer_dones := bd \<rparr>))))))))))))))"

text \<open>
  \<^verbatim>\<open>store\<close> adds the number of info records to \<^verbatim>\<open>buffer_len\<close> and then appends, for
  each position, the six values to the sub-buffers of the position's scenario. An exception
  ends the call; the model returns the error alone.
\<close>

fun store_loop :: "data_list \<Rightarrow> nat list \<Rightarrow> ReplayBuffer \<Rightarrow> error + ReplayBuffer" where
  "store_loop d [] b = Inr b"
| "store_loop d (s_i # rest) b = bnd (store_one d s_i b) (store_loop d rest)"

definition store :: "ReplayBuffer \<Rightarrow> data_list \<Rightarrow> error + ReplayBuffer" where
  "store b d =
     store_loop d [0..<length (infos d)]
       (b\<lparr>buffer_len := buffer_len b + length (infos d)\<rparr>)"

text \<open>
  \<^verbatim>\<open>np.stack\<close> of a Python list: an empty list and rows of different shapes raise
  \<^verbatim>\<open>ValueError\<close>.
\<close>

definition np_stack_rows :: "row list \<Rightarrow> error + row list" where
  "np_stack_rows xs =
     (case xs of
        [] \<Rightarrow> Inl ValueError
      | x # rest \<Rightarrow> if list_all (\<lambda>y. length y = length x) rest then Inr xs else Inl ValueError)"

definition np_stack_scalars :: "real list \<Rightarrow> error + real list" where
  "np_stack_scalars xs = (if xs = [] then Inl ValueError else Inr xs)"

text \<open>Indexing a stacked array with an index array: every index is looked up.\<close>

fun take_idx :: "'a list \<Rightarrow> nat list \<Rightarrow> error + 'a list" where
  "take_idx xs [] = Inr []"
| "take_idx xs (i # is) =
     bnd (py_get xs i) (\<lambda>x. bnd (take_idx xs is) (\<lambda>rest. Inr (x # rest)))"

text \<open>The pools of \<^verbatim>\<open>sample\<close>: the loop over the scenarios, one accumulator each.\<close>

record pools =
  prepared_ego_actions :: "row list"
  prepared_scenario_actions :: "row list"
  prepared_obs :: "row list"
  prepared_next_obs :: "row list"
  prepared_rewards :: "real list"
  prepared_dones :: "real list"

definition empty_pools :: pools where
  "empty_pools =
     \<lparr> prepared_ego_actions = [], prepared_scenario_actions = [], prepared_obs = [],
       prepared_next_obs = [], prepared_rewards = [], prepared_dones = [] \<rparr>"

definition start_idx_of :: "nat \<Rightarrow> nat \<Rightarrow> nat" where
  "start_idx_of num_trajectory samples_per_trajectory =
     nat (max 0 (int num_trajectory - int samples_per_trajectory))"

definition prepare_one :: "ReplayBuffer \<Rightarrow> nat \<Rightarrow> nat \<Rightarrow> pools \<Rightarrow> error + pools" where
  "prepare_one b samples_per_trajectory s_i p =
     bnd (py_get (buffer_rewards b) s_i) (\<lambda>rw.
       let start_idx = start_idx_of (length rw) samples_per_trajectory in
     bnd (py_get (buffer_ego_actions b) s_i) (\<lambda>ea.
     bnd (py_get (buffer_scenario_actions b) s_i) (\<lambda>sa.
     bnd (py_get (buffer_obs b) s_i) (\<lambda>ob.
     bnd (py_get (buffer_next_obs b) s_i) (\<lambda>nob.
     bnd (py_get (buffer_dones b) s_i) (\<lambda>dn.
       Inr \<lparr> prepared_ego_actions = prepared_ego_actions p @ drop start_idx ea,
             prepared_scenario_actions = prepared_scenario_actions p @ drop start_idx sa,
             prepared_obs = prepared_obs p @ drop start_idx ob,
             prepared_next_obs = prepared_next_obs p @ drop start_idx nob,
             prepared_rewards = prepared_rewards p @ drop start_idx rw,
             prepared_dones = prepared_dones p @ drop start_idx dn \<rparr>))))))"

fun prepare_loop :: "ReplayBuffer \<Rightarrow> nat \<Rightarrow> nat list \<Rightarrow> pools \<Rightarrow> error + pools" where
  "prepare_loop b spt [] p = Inr p"
| "prepare_loop b spt (s_i # rest) p = bnd (prepare_one b spt s_i p) (prepare_loop b spt rest)"

definition prepare :: "ReplayBuffer \<Rightarrow> error + pools" where
  "prepare b =
     (if num_scenario b = 0 then Inl ZeroDivisionError
      else prepare_loop b (buffer_capacity b div num_scenario b) [0..<num_scenario b]
             empty_pools)"

text \<open>A value of the batch dictionary: a column of scalars or a matrix of rows.\<close>

datatype ndarray = Arr1 "real list" | Arr2 "row list"

fun first_dim :: "ndarray \<Rightarrow> nat" where
  "first_dim (Arr1 xs) = length xs"
| "first_dim (Arr2 xs) = length xs"

type_synonym batch_dict = "(string \<times> ndarray) list"

text \<open>
  \<^verbatim>\<open>sample(batch_size)\<close>: the dictionary is an association list in the order of the
  source. The batch size is a natural number (numpy rejects a negative size).
\<close>

definition sample :: "ReplayBuffer \<Rightarrow> nat \<Rightarrow> rng \<Rightarrow> error + (batch_dict \<times> rng)" where
  "sample b batch_size g =
     bnd (prepare b) (\<lambda>p.
     bnd (randint g (length (prepared_rewards p)) batch_size) (\<lambda>(sample_index, g').
     bnd (if mode b = ''train_agent''
          then bnd (np_stack_rows (prepared_ego_actions p)) (\<lambda>a. take_idx a sample_index)
          else bnd (np_stack_rows (prepared_scenario_actions p)) (\<lambda>a. take_idx a sample_index))
       (\<lambda>action.
     bnd (bnd (np_stack_rows (prepared_obs p)) (\<lambda>a. take_idx a sample_index)) (\<lambda>state.
     bnd (bnd (np_stack_rows (prepared_next_obs p)) (\<lambda>a. take_idx a sample_index)) (\<lambda>n_state.
     bnd (bnd (np_stack_scalars (prepared_rewards p)) (\<lambda>a. take_idx a sample_index)) (\<lambda>reward.
     bnd (bnd (np_stack_scalars (prepared_dones p)) (\<lambda>a. take_idx a sample_index)) (\<lambda>done.
       Inr ([(''action'', Arr2 action),
             (''state'', Arr2 state),
             (''n_state'', Arr2 n_state),
             (''reward'', Arr1 reward),
             (''done'', Arr1 done)], g'))))))))"

section \<open>The networks\<close>

text \<open>
  The layers of \<^verbatim>\<open>torch.nn\<close> and the optimizer are not code of the repository; they
  enter as functions of a network's flattened parameter list. A network acts on each
  row of a batch by itself.
  \<^item> \<open>actor_layers \<theta> x\<close>: for the row \<open>x\<close>, the outputs of \<^verbatim>\<open>fc_mu\<close> and \<^verbatim>\<open>fc_std\<close>
    (both \<^verbatim>\<open>Linear(256, action_dim)\<close>), paired per action dimension;
  \<^item> \<open>critic_layers \<theta> x\<close>: the output of \<^verbatim>\<open>Critic.forward\<close>;
  \<^item> \<open>q_layers \<theta> x a\<close>: the output of \<^verbatim>\<open>Q.forward\<close>;
  \<^item> \<open>opt_step opt loss \<theta>\<close>: \<^verbatim>\<open>zero_grad\<close>, \<^verbatim>\<open>loss.backward\<close>,
    \<^verbatim>\<open>clip_grad_norm_(.., 0.5)\<close> and \<^verbatim>\<open>step\<close> of one Adam optimizer, for the loss as a
    function of the parameters it is differentiated in.
\<close>

record 'o torch =
  actor_layers :: "real list \<Rightarrow> row \<Rightarrow> (real \<times> real) list"
  critic_layers :: "real list \<Rightarrow> row \<Rightarrow> real"
  q_layers :: "real list \<Rightarrow> row \<Rightarrow> row \<Rightarrow> real"
  opt_step :: "'o \<Rightarrow> (real list \<Rightarrow> real) \<Rightarrow> real list \<Rightarrow> 'o \<times> real list"

definition Actor_forward :: "'o torch \<Rightarrow> real list \<Rightarrow> row list \<Rightarrow> row list \<times> row list" where
  "Actor_forward T \<theta> x =
     (let h = map (actor_layers T \<theta>) x;
          mu = map (map (\<lambda>(m, l). tanh m)) h;
          logstd = map (map (\<lambda>(m, l). l)) h
      in (mu, logstd))"

definition Critic_forward :: "'o torch \<Rightarrow> real list \<Rightarrow> row list \<Rightarrow> real list" where
  "Critic_forward T \<theta> x = map (critic_layers T \<theta>) x"

definition Q_forward :: "'o torch \<Rightarrow> real list \<Rightarrow> row list \<Rightarrow> row list \<Rightarrow> real list" where
  "Q_forward T \<theta> x a = map2 (q_layers T \<theta>) x a"

section \<open>The agent\<close>

record SAC_config =
  use_suppression :: bool
  use_recovery :: bool
  lam :: real
  buffer_start_training :: int
  min_Val :: real
  batch_size :: nat
  update_iteration :: int
  gamma :: real
  tau :: real
  risk_thresh :: real

record 'o SAC =
  cfg :: SAC_config
  policy_net :: "real list"
  value_net :: "real list"
  Q_net :: "real list"
  Target_value_net :: "real list"
  value_risk_net :: "real list"
  policy_recovery_net :: "real list"
  Q_risk_net :: "real list"
  Target_value_risk_net :: "real list"
  policy_optimizer :: 'o
  value_optimizer :: 'o
  Q_optimizer :: 'o
  policy_recovery_optimizer :: 'o
  value_risk_optimizer :: 'o
  Q_risk_optimizer :: 'o

text \<open>
  \<^verbatim>\<open>SAC.__init__\<close>: the two flags, \<^verbatim>\<open>lam\<close> and \<^verbatim>\<open>risk_thresh\<close> are literals of the
  source; the other hyper-parameters come from the configuration; the networks are freshly
  initialised (their parameters are arguments here) and each target network starts as a
  copy of its live network. The configuration dictionary can hold more keys than
  \<^verbatim>\<open>__init__\<close> reads; the record below carries one of them, \<^verbatim>\<open>suppression_weight\<close>.
\<close>

record config =
  config_buffer_start_training :: int
  config_min_Val :: real
  config_batch_size :: nat
  config_update_iteration :: int
  config_gamma :: real
  config_tau :: real
  config_suppression_weight :: real

definition SAC_init ::
  "config \<Rightarrow> real list \<Rightarrow> real list \<Rightarrow> real list \<Rightarrow> real list \<Rightarrow> real list \<Rightarrow> real list
     \<Rightarrow> 'o \<Rightarrow> 'o SAC" where
  "SAC_init c pol val q val_risk pol_rec q_risk opt0 =
     \<lparr> cfg = \<lparr> use_suppression = True, use_recovery = True, lam = 2,
               buffer_start_training = config_buffer_start_training c,
               min_Val = config_min_Val c,
               batch_size = config_batch_size c,
               update_iteration = config_update_iteration c,
               gamma = config_gamma c,
               tau = config_tau c,
               risk_thresh = 1 / 10 \<rparr>,
       policy_net = pol, value_net = val, Q_net = q, Target_value_net = val,
       value_risk_net = val_risk, policy_recovery_net = pol_rec, Q_risk_net = q_risk,
       Target_value_risk_net = val_risk,
       policy_optimizer = opt0, value_optimizer = opt0, Q_optimizer = opt0,
       policy_recovery_optimizer = opt0, value_risk_optimizer = opt0,
       Q_risk_optimizer = opt0 \<rparr>"

subsection \<open>Acting\<close>

text \<open>The local function \<^verbatim>\<open>sample\<close> of \<^verbatim>\<open>get_action\<close>.\<close>

definition get_action_sample ::
  "bool \<Rightarrow> rng \<Rightarrow> row list \<Rightarrow> row list \<Rightarrow> row list \<times> rng" where
  "get_action_sample deterministic g mu log_sigma =
     (if deterministic then (mu, g)
      else let sigma = map (map exp) log_sigma;
               (z, g') = Normal_sample g mu sigma
           in (map (map tanh) z, g'))"

text \<open>
  \<^verbatim>\<open>get_action\<close> returns the pair \<open>(task_action, action)\<close>. The gate reads
  \<^verbatim>\<open>risk.ravel()[0]\<close>: the risk of the first row, an \<^verbatim>\<open>IndexError\<close> on an empty batch.
\<close>

definition get_action ::
  "'o torch \<Rightarrow> 'o SAC \<Rightarrow> row list \<Rightarrow> bool \<Rightarrow> rng \<Rightarrow> error + ((row list \<times> row list) \<times> rng)" where
  "get_action T s state deterministic g =
     (let (mu_task, log_sigma_task) = Actor_forward T (policy_net s) state;
          (task_action, g1) = get_action_sample deterministic g mu_task log_sigma_task
      in if use_recovery (cfg s) then
           (let risk = Q_forward T (Q_risk_net s) state task_action
            in bnd (py_get risk 0) (\<lambda>risk0.
                 if risk0 < - risk_thresh (cfg s) then
                   (let (mu_rec, log_sigma_rec) = Actor_forward T (policy_recovery_net s) state;
                        (action, g2) = get_action_sample deterministic g1 mu_rec log_sigma_rec
                    in Inr ((task_action, action), g2))
                 else Inr ((task_action, task_action), g1)))
         else Inr ((task_action, task_action), g1))"

subsection \<open>Acting in float32\<close>

text \<open>
  The definitions above read \<^verbatim>\<open>tanh\<close> and \<^verbatim>\<open>exp\<close> exactly. The tensors of the source
  are float32, and two effects of that arithmetic decide the range of an action and whether
  \<^verbatim>\<open>get_action\<close> returns: \<^verbatim>\<open>tanh\<close> rounds to exactly 1 or -1 for arguments of large
  magnitude, and \<^verbatim>\<open>torch.exp\<close> underflows to 0 for very negative arguments, on which the
  constructor of \<^verbatim>\<open>Normal\<close> raises \<^verbatim>\<open>ValueError\<close> (it accepts positive scales only).
  \<open>get_action_with\<close> is \<^verbatim>\<open>get_action\<close> over an arithmetic given by its \<^verbatim>\<open>tanh\<close> and
  \<^verbatim>\<open>exp\<close>. \<open>float32_ops\<close> has the saturation of \<^verbatim>\<open>tanh\<close> from magnitude 10 on
  (float32 \<^verbatim>\<open>tanh\<close> is exactly 1 from about 9.02 on) and the underflow of \<^verbatim>\<open>exp\<close> from
  -104 down (float32 \<^verbatim>\<open>exp\<close> is 0 below about -103.97); all other rounding, overflow and
  NaN are not modelled. \<open>exact_ops\<close> is the exact arithmetic.
\<close>

record float_ops =
  f_tanh :: "real \<Rightarrow> real"
  f_exp :: "real \<Rightarrow> real"

definition exact_ops :: float_ops where
  "exact_ops = \<lparr> f_tanh = tanh, f_exp = exp \<rparr>"

definition float32_ops :: float_ops where
  "float32_ops =
     \<lparr> f_tanh = (\<lambda>x. if 10 \<le> x then 1 else if x \<le> - 10 then - 1 else tanh x),
       f_exp = (\<lambda>x. if x \<le> - 104 then 0 else exp x) \<rparr>"

definition Actor_forward_with ::
  "float_ops \<Rightarrow> 'o torch \<Rightarrow> real list \<Rightarrow> row list \<Rightarrow> row list \<times> row list" where
  "Actor_forward_with ops T \<theta> x =
     (let h = map (actor_layers T \<theta>) x;
          mu = map (map (\<lambda>(m, l). f_tanh ops m)) h;
          logstd = map (map (\<lambda>(m, l). l)) h
      in (mu, logstd))"

text \<open>The argument check of \<^verbatim>\<open>Normal(mu, sigma)\<close>: every scale is positive.\<close>

definition valid_scale :: "row list \<Rightarrow> bool" where
  "valid_scale sigma = list_all (list_all (\<lambda>sg. 0 < sg)) sigma"

definition get_action_sample_with ::
  "float_ops \<Rightarrow> bool \<Rightarrow> rng \<Rightarrow> row list \<Rightarrow> row list \<Rightarrow> error + (row list \<times> rng)" where
  "get_action_sample_with ops deterministic g mu log_sigma =
     (if deterministic then Inr (mu, g)
      else let sigma = map (map (f_exp ops)) log_sigma
           in if valid_scale sigma then
                (let (z, g') = Normal_sample g mu sigma
                 in Inr (map (map (f_tanh ops)) z, g'))
              else Inl ValueError)"

definition get_action_with ::
  "float_ops \<Rightarrow> 'o torch \<Rightarrow> 'o SAC \<Rightarrow> row list \<Rightarrow> bool \<Rightarrow> rng
     \<Rightarrow> error + ((row list \<times> row list) \<times> rng)" where
  "get_action_with ops T s state deterministic g =
     (let (mu_task, log_sigma_task) = Actor_forward_with ops T (policy_net s) state
      in bnd (get_action_sample_with ops deterministic g mu_task log_sigma_task)
           (\<lambda>(task_action, g1).
         if use_recovery (cfg s) then
           (let risk = Q_forward T (Q_risk_net s) state task_action
            in bnd (py_get risk 0) (\<lambda>risk0.
                 if risk0 < - risk_thresh (cfg s) then
                   (let (mu_rec, log_sigma_rec) =
                          Actor_forward_with ops T (policy_recovery_net s) state
                    in bnd (get_action_sample_with ops deterministic g1 mu_rec log_sigma_rec)
                         (\<lambda>(action, g2). Inr ((task_action, action), g2)))
                 else Inr ((task_action, task_action), g1)))
         else Inr ((task_action, task_action), g1)))"

subsection \<open>Log-probabilities of fresh samples\<close>

text \<open>\<^verbatim>\<open>Normal(loc, scale).log_prob(value)\<close> of \<^verbatim>\<open>torch.distributions\<close>, per entry.\<close>

definition Normal_log_prob :: "real \<Rightarrow> real \<Rightarrow> real \<Rightarrow> real" where
  "Normal_log_prob loc scale v =
     - ((v - loc)\<^sup>2) / (2 * scale\<^sup>2) - ln scale - ln (sqrt (2 * pi))"

text \<open>
  One entry of \<^verbatim>\<open>dist.log_prob(z) - torch.log(torch.maximum(1 - a.pow(2) + min_Val,
  zeros) + 1e-3)\<close> with \<open>a = tanh z\<close>, and its sum over the action dimensions of a row.
\<close>

definition log_prob_entry :: "real \<Rightarrow> real \<Rightarrow> real \<Rightarrow> real \<Rightarrow> real" where
  "log_prob_entry mv m sg zi =
     (let a = tanh zi
      in Normal_log_prob m sg zi - ln (max (1 - a\<^sup>2 + mv) 0 + 1 / 1000))"

definition log_prob_row :: "real \<Rightarrow> row \<Rightarrow> row \<Rightarrow> row \<Rightarrow> real" where
  "log_prob_row mv mu sigma z =
     sum_list (map (\<lambda>(m, sg, zi). log_prob_entry mv m sg zi) (zip mu (zip sigma z)))"

text \<open>
  The log-probability column of the draw \<open>z\<close> under the actor with parameters \<open>\<theta>\<close>: the
  value computed by \<^verbatim>\<open>get_action_log_prob\<close>, and, as a function of \<open>\<theta>\<close>, what the policy
  losses are differentiated through (the draw itself carries no gradient).
\<close>

definition log_prob_under :: "'o torch \<Rightarrow> real \<Rightarrow> real list \<Rightarrow> row list \<Rightarrow> row list \<Rightarrow> real list" where
  "log_prob_under T mv \<theta> state z =
     (let (batch_mu, batch_log_sigma) = Actor_forward T \<theta> state;
          batch_sigma = map (map exp) batch_log_sigma
      in map (\<lambda>(mu, sigma, zr). log_prob_row mv mu sigma zr)
             (zip batch_mu (zip batch_sigma z)))"

text \<open>
  The dictionary returned by \<^verbatim>\<open>get_action_log_prob\<close>. The fields \<open>z_task\<close> and
  \<open>z_recovery\<close> are not keys of it: they are the draws \<^verbatim>\<open>z\<close> and \<^verbatim>\<open>z_rec\<close>, which the
  computation graph of the two log-probabilities retains.
\<close>

record action_log_probs =
  task_action :: "row list"
  task_log_prob :: "real list"
  mixed_action :: "row list"
  mixed_log_prob :: "real list"
  z_task :: "row list"
  z_recovery :: "row list"

definition get_action_log_prob ::
  "'o torch \<Rightarrow> 'o SAC \<Rightarrow> row list \<Rightarrow> rng \<Rightarrow> action_log_probs \<times> rng" where
  "get_action_log_prob T s state g =
     (let (batch_mu, batch_log_sigma) = Actor_forward T (policy_net s) state;
          batch_sigma = map (map exp) batch_log_sigma;
          (z, g1) = Normal_sample g batch_mu batch_sigma;
          task_action' = map (map tanh) z;
          task_log_prob' = log_prob_under T (min_Val (cfg s)) (policy_net s) state z
      in if use_recovery (cfg s) then
           (let (batch_mu_rec, batch_log_sigma_rec) =
                  Actor_forward T (policy_recovery_net s) state;
                batch_sigma_rec = map (map exp) batch_log_sigma_rec;
                (z_rec, g2) = Normal_sample g1 batch_mu_rec batch_sigma_rec;
                recovery_action = map (map tanh) z_rec;
                recovery_log_prob =
                  log_prob_under T (min_Val (cfg s)) (policy_recovery_net s) state z_rec;
                recovery_log_prob_2 = recovery_log_prob;
                risk = Q_forward T (Q_risk_net s) state task_action';
                recovery_active =
                  map (\<lambda>r. if r < - risk_thresh (cfg s) then 1 else (0::real)) risk;
                action = recovery_action;
                log_prob = recovery_log_prob
            in (\<lparr> task_action = task_action', task_log_prob = task_log_prob',
                   mixed_action = action, mixed_log_prob = log_prob,
                   z_task = z, z_recovery = z_rec \<rparr>, g2))
         else
           (\<lparr> task_action = task_action', task_log_prob = task_log_prob',
              mixed_action = task_action', mixed_log_prob = task_log_prob',
              z_task = z, z_recovery = [] \<rparr>, g1))"

subsection \<open>The training step\<close>

text \<open>\<^verbatim>\<open>torch.clamp(x, lo, hi)\<close>.\<close>

definition clamp :: "real \<Rightarrow> real \<Rightarrow> real \<Rightarrow> real" where
  "clamp x lo hi = min (max x lo) hi"

text \<open>
  Reading the batch dictionary, in the order of the source; a missing key raises
  \<^verbatim>\<open>KeyError\<close>. The model reads matrices under \<^verbatim>\<open>state\<close>, \<^verbatim>\<open>task_action\<close>,
  \<^verbatim>\<open>mixed_action\<close>, \<^verbatim>\<open>n_state\<close> and columns under \<^verbatim>\<open>reward\<close>, \<^verbatim>\<open>risk\<close>,
  \<^verbatim>\<open>done\<close>, all of one first dimension; any other shape is reported as
  \<^verbatim>\<open>RuntimeError\<close> (the broadcasting of torch is not modelled).
\<close>

definition lookup :: "batch_dict \<Rightarrow> string \<Rightarrow> error + ndarray" where
  "lookup batch k = (case map_of batch k of None \<Rightarrow> Inl (KeyError k) | Some v \<Rightarrow> Inr v)"

definition as_rows :: "ndarray \<Rightarrow> error + row list" where
  "as_rows a = (case a of Arr2 xs \<Rightarrow> Inr xs | Arr1 xs \<Rightarrow> Inl RuntimeError)"

definition as_column :: "ndarray \<Rightarrow> error + real list" where
  "as_column a = (case a of Arr1 xs \<Rightarrow> Inr xs | Arr2 xs \<Rightarrow> Inl RuntimeError)"

record train_batch =
  bn_s :: "row list"
  bn_a_task :: "row list"
  bn_a_mixed :: "row list"
  bn_r :: "real list"
  bn_r_risk :: "real list"
  bn_s_next :: "row list"
  bn_d :: "real list"

definition read_batch :: "batch_dict \<Rightarrow> error + train_batch" where
  "read_batch batch =
     bnd (bnd (lookup batch ''state'') as_rows) (\<lambda>st.
     bnd (bnd (lookup batch ''task_action'') as_rows) (\<lambda>a_task.
     bnd (bnd (lookup batch ''mixed_action'') as_rows) (\<lambda>a_mixed.
     bnd (bnd (lookup batch ''reward'') as_column) (\<lambda>r.
     bnd (bnd (lookup batch ''risk'') as_column) (\<lambda>rk.
     bnd (bnd (lookup batch ''n_state'') as_rows) (\<lambda>n_st.
     bnd (bnd (lookup batch ''done'') as_column) (\<lambda>dn.
       if length a_task = length st \<and> length a_mixed = length st \<and> length r = length st
          \<and> length rk = length st \<and> length n_st = length st \<and> length dn = length st
       then Inr \<lparr> bn_s = st, bn_a_task = a_task, bn_a_mixed = a_mixed, bn_r = r,
                   bn_r_risk = map (\<lambda>x. - x) rk, bn_s_next = n_st,
                   bn_d = map (\<lambda>x. 1 - x) dn \<rparr>
       else Inl RuntimeError)))))))"

text \<open>The bootstrapped targets (columns, one entry per batch element).\<close>

definition next_q_value_of :: "real \<Rightarrow> real list \<Rightarrow> real list \<Rightarrow> real list \<Rightarrow> real list" where
  "next_q_value_of gm r d target_value =
     map (\<lambda>(ri, di, vi). ri + di * gm * vi) (zip r (zip d target_value))"

text \<open>
  Line 301: the upper bound of the clamp, \<^verbatim>\<open>50. / (1. - self.gamma)\<close>, is a division of
  Python floats and raises \<^verbatim>\<open>ZeroDivisionError\<close> when the discount is 1. (The division
  of the tensor \<^verbatim>\<open>bn_r_risk\<close> by \<^verbatim>\<open>1. - self.gamma\<close> in the first argument does not
  raise; the bound is evaluated after it, and nothing of the first argument survives the
  exception.)
\<close>

definition py_float_div :: "real \<Rightarrow> real \<Rightarrow> error + real" where
  "py_float_div a b = (if b = 0 then Inl ZeroDivisionError else Inr (a / b))"

definition max_terminal_of :: "real \<Rightarrow> real list \<Rightarrow> real list \<Rightarrow> error + real list" where
  "max_terminal_of gm r_risk d =
     bnd (py_float_div 50 (1 - gm)) (\<lambda>bound.
       Inr (map2 (\<lambda>ri di. clamp (ri / (1 - gm) * (1 - di) - ri) 0 bound) r_risk d))"

definition next_q_risk_value_of ::
  "real \<Rightarrow> real list \<Rightarrow> real list \<Rightarrow> real list \<Rightarrow> error + real list" where
  "next_q_risk_value_of gm r_risk d target_value_risk =
     (let next_q_risk_value = next_q_value_of gm r_risk d target_value_risk
      in bnd (max_terminal_of gm r_risk d) (\<lambda>max_terminal.
           Inr (map2 (\<lambda>x y. x + y) next_q_risk_value max_terminal)))"

text \<open>
  Lines 293 to 302 of \<^verbatim>\<open>train\<close>: the pair \<open>(next_q_value, next_q_risk_value)\<close>. Without
  recovery the risk target is not computed (no division takes place); the second
  component is then empty and not used.
\<close>

definition bootstrapped_targets ::
  "'o torch \<Rightarrow> 'o SAC \<Rightarrow> train_batch \<Rightarrow> error + (real list \<times> real list)" where
  "bootstrapped_targets T s b =
     (let c = cfg s;
          r = (if \<not> use_recovery c
               then map2 (\<lambda>x y. x + lam c * y) (bn_r b) (bn_r_risk b) else bn_r b);
          target_value = Critic_forward T (Target_value_net s) (bn_s_next b);
          next_q_value = next_q_value_of (gamma c) r (bn_d b) target_value
      in if use_recovery c then
           (let target_value_risk = Critic_forward T (Target_value_risk_net s) (bn_s_next b)
            in bnd (next_q_risk_value_of (gamma c) (bn_r_risk b) (bn_d b) target_value_risk)
                 (\<lambda>next_q_risk_value. Inr (next_q_value, next_q_risk_value)))
         else Inr (next_q_value, []))"

text \<open>The suppression gate and the blended policy target.\<close>

definition gate_of :: "real list \<Rightarrow> real list" where
  "gate_of expected_new_Q_risk =
     (let suppression_weight = map (\<lambda>x. 1 * (10::real)) expected_new_Q_risk;
          gate = map2 (\<lambda>q w. - q * w) expected_new_Q_risk suppression_weight
      in map (\<lambda>gt. clamp (gt * 2) (1 / 4) (3 / 4)) gate)"

definition log_policy_target_of ::
  "SAC_config \<Rightarrow> real list \<Rightarrow> real list \<Rightarrow> real list \<Rightarrow> real list \<Rightarrow> real list" where
  "log_policy_target_of c expected_new_Q expected_value expected_new_Q_risk expected_value_risk =
     (let log_policy_target = map2 (\<lambda>q v. q - v) expected_new_Q expected_value
      in if use_recovery c then
           (let log_policy_recovery_target =
                  map2 (\<lambda>q v. q - v) expected_new_Q_risk expected_value_risk
            in if use_suppression c then
                 (let gate = gate_of expected_new_Q_risk
                  in map (\<lambda>(t, gt, rt). t * (1 - gt) + gt * rt)
                         (zip log_policy_target (zip gate log_policy_recovery_target)))
               else log_policy_target)
         else log_policy_target)"

text \<open>
  \<^verbatim>\<open>nn.MSELoss\<close> and \<^verbatim>\<open>mean\<close> over a column. On an empty column torch yields NaN;
  these values reach the optimizer only.
\<close>

definition mean :: "real list \<Rightarrow> real" where
  "mean xs = sum_list xs / real (length xs)"

definition MSELoss :: "real list \<Rightarrow> real list \<Rightarrow> real" where
  "MSELoss xs ys = mean (map2 (\<lambda>x y. (x - y)\<^sup>2) xs ys)"

text \<open>
  The soft update writes into the target's tensors in place, pair by pair of the
  \<^verbatim>\<open>zip\<close>: target tensors beyond the shorter list keep their value.
\<close>

definition soft_update :: "real \<Rightarrow> real list \<Rightarrow> real list \<Rightarrow> real list" where
  "soft_update t target_params params =
     map2 (\<lambda>target_param param. target_param * (1 - t) + param * t) target_params params
       @ drop (length params) target_params"

text \<open>One pass of the loop body of \<^verbatim>\<open>train\<close>.\<close>

definition train_iteration ::
  "'o torch \<Rightarrow> (nat \<Rightarrow> rng \<Rightarrow> error + (batch_dict \<times> rng)) \<Rightarrow> 'o SAC \<Rightarrow> rng
     \<Rightarrow> error + ('o SAC \<times> rng)" where
  "train_iteration T replay_sample s g =
     bnd (replay_sample (batch_size (cfg s)) g) (\<lambda>(batch, g1).
     bnd (read_batch batch) (\<lambda>b.
     bnd (bootstrapped_targets T s b) (\<lambda>(next_q_value, next_q_risk_value).
       let c = cfg s;
           expected_value = Critic_forward T (value_net s) (bn_s b);
           expected_Q = Q_forward T (Q_net s) (bn_s b) (bn_a_task b);
           expected_value_risk = Critic_forward T (value_risk_net s) (bn_s b);
           expected_Q_risk = Q_forward T (Q_risk_net s) (bn_s b) (bn_a_mixed b);
           (actions_log_probs, g2) = get_action_log_prob T s (bn_s b) g1;
           expected_new_Q = Q_forward T (Q_net s) (bn_s b) (task_action actions_log_probs);
           expected_new_Q_risk =
             Q_forward T (Q_risk_net s) (bn_s b) (mixed_action actions_log_probs);
           next_value = map2 (\<lambda>q l. q - l) expected_new_Q (task_log_prob actions_log_probs);
           next_value_risk =
             map2 (\<lambda>q l. q - l) expected_new_Q_risk (mixed_log_prob actions_log_probs);
           V_loss = (\<lambda>\<theta>. MSELoss (Critic_forward T \<theta> (bn_s b)) next_value);
           V_risk_loss = (\<lambda>\<theta>. MSELoss (Critic_forward T \<theta> (bn_s b)) next_value_risk);
           Q_loss = (\<lambda>\<theta>. MSELoss (Q_forward T \<theta> (bn_s b) (bn_a_task b)) next_q_value);
           Q_risk_loss =
             (\<lambda>\<theta>. MSELoss (Q_forward T \<theta> (bn_s b) (bn_a_mixed b)) next_q_risk_value);
           log_policy_target =
             log_policy_target_of c expected_new_Q expected_value
               expected_new_Q_risk expected_value_risk;
           log_policy_recovery_target =
             map2 (\<lambda>q v. q - v) expected_new_Q_risk expected_value_risk;
           pi_loss =
             (\<lambda>\<theta>. mean (map2 (\<lambda>l k. l * k)
                     (log_prob_under T (min_Val c) \<theta> (bn_s b) (z_task actions_log_probs))
                     (map2 (\<lambda>l t. l - t) (task_log_prob actions_log_probs)
                        log_policy_target)));
           pi_recovery_loss =
             (\<lambda>\<theta>. mean (map2 (\<lambda>l k. l * k)
                     (log_prob_under T (min_Val c) \<theta> (bn_s b)
                        (z_recovery actions_log_probs))
                     (map2 (\<lambda>l t. l - t) (mixed_log_prob actions_log_probs)
                        log_policy_recovery_target)));
           (vo, vn) = opt_step T (value_optimizer s) V_loss (value_net s);
           (qo, qn) = opt_step T (Q_optimizer s) Q_loss (Q_net s);
           (po, pn) = opt_step T (policy_optimizer s) pi_loss (policy_net s);
           s1 = s\<lparr> value_optimizer := vo, value_net := vn, Q_optimizer := qo, Q_net := qn,
                   policy_optimizer := po, policy_net := pn \<rparr>;
           s2 = (if use_recovery c then
                   (let (vro, vrn) =
                          opt_step T (value_risk_optimizer s) V_risk_loss (value_risk_net s);
                        (qro, qrn) =
                          opt_step T (Q_risk_optimizer s) Q_risk_loss (Q_risk_net s);
                        (pro, prn) =
                          opt_step T (policy_recovery_optimizer s) pi_recovery_loss
                            (policy_recovery_net s)
                    in s1\<lparr> value_risk_optimizer := vro, value_risk_net := vrn,
                           Q_risk_optimizer := qro, Q_risk_net := qrn,
                           policy_recovery_optimizer := pro, policy_recovery_net := prn \<rparr>)
                 else s1);
           s3 = s2\<lparr> Target_value_net :=
                      soft_update (tau c) (Target_value_net s2) (value_net s2) \<rparr>;
           s4 = (if use_recovery c then
                   s3\<lparr> Target_value_risk_net :=
                         soft_update (tau c) (Target_value_risk_net s3) (value_risk_net s3) \<rparr>
                 else s3)
       in Inr (s4, g2))))"

fun train_loop ::
  "'o torch \<Rightarrow> (nat \<Rightarrow> rng \<Rightarrow> error + (batch_dict \<times> rng)) \<Rightarrow> nat \<Rightarrow> 'o SAC \<Rightarrow> rng
     \<Rightarrow> error + ('o SAC \<times> rng)" where
  "train_loop T replay_sample 0 s g = Inr (s, g)"
| "train_loop T replay_sample (Suc n) s g =
     bnd (train_iteration T replay_sample s g) (\<lambda>(s', g'). train_loop T replay_sample n s' g')"

text \<open>
  \<^verbatim>\<open>train(replay_buffer)\<close> reads of the buffer its attribute \<^verbatim>\<open>buffer_len\<close> and its
  method \<^verbatim>\<open>sample\<close>; both are arguments here, so that any buffer can be passed.
\<close>

definition train ::
  "'o torch \<Rightarrow> 'o SAC \<Rightarrow> nat \<Rightarrow> (nat \<Rightarrow> rng \<Rightarrow> error + (batch_dict \<times> rng)) \<Rightarrow> rng
     \<Rightarrow> error + ('o SAC \<times> rng)" where
  "train T s replay_buffer_len replay_sample g =
     (if int replay_buffer_len < buffer_start_training (cfg s) then Inr (s, g)
      else train_loop T replay_sample (nat (update_iteration (cfg s))) s g)"

text \<open>\<^verbatim>\<open>agent.train(replay_buffer)\<close> with the buffer of this repository.\<close>

definition train_on :: "'o torch \<Rightarrow> 'o SAC \<Rightarrow> ReplayBuffer \<Rightarrow> rng \<Rightarrow> error + ('o SAC \<times> rng)" where
  "train_on T s b g = train T s (buffer_len b) (sample b) g"

section \<open>Notions used in the statements\<close>

text \<open>
  The invariant of the buffer that \<^verbatim>\<open>__init__\<close> establishes and \<^verbatim>\<open>store\<close> keeps: one
  sub-buffer per scenario in each of the six lists, the six sub-buffers of a scenario of one
  length, and \<^verbatim>\<open>buffer_len\<close> the number of stored transitions.
\<close>

definition aligned :: "ReplayBuffer \<Rightarrow> bool" where
  "aligned b \<longleftrightarrow>
     length (buffer_ego_actions b) = num_scenario b \<and>
     length (buffer_scenario_actions b) = num_scenario b \<and>
     length (buffer_obs b) = num_scenario b \<and>
     length (buffer_next_obs b) = num_scenario b \<and>
     length (buffer_rewards b) = num_scenario b \<and>
     length (buffer_dones b) = num_scenario b \<and>
     list_all (\<lambda>i. length (buffer_ego_actions b ! i) = length (buffer_rewards b ! i) \<and>
                   length (buffer_scenario_actions b ! i) = length (buffer_rewards b ! i) \<and>
                   length (buffer_obs b ! i) = length (buffer_rewards b ! i) \<and>
                   length (buffer_next_obs b ! i) = length (buffer_rewards b ! i) \<and>
                   length (buffer_dones b ! i) = length (buffer_rewards b ! i))
       [0..<num_scenario b]"

definition wf_buffer :: "ReplayBuffer \<Rightarrow> bool" where
  "wf_buffer b \<longleftrightarrow>
     aligned b \<and> buffer_len b = sum_list (map length (buffer_rewards b))"

text \<open>
  The specification's pool: per scenario the \<open>k\<close> most recent transitions, the scenarios
  concatenated in order.
\<close>

definition most_recent :: "nat \<Rightarrow> 'a list \<Rightarrow> 'a list" where
  "most_recent k xs = rev (take k (rev xs))"

definition window_pool :: "nat \<Rightarrow> 'a list list \<Rightarrow> 'a list" where
  "window_pool k xss = concat (map (most_recent k) xss)"

definition pool_size :: "ReplayBuffer \<Rightarrow> nat" where
  "pool_size b =
     length (window_pool (buffer_capacity b div num_scenario b) (buffer_rewards b))"

text \<open>The rows that \<^verbatim>\<open>np.stack\<close> is applied to have one shape.\<close>

definition same_shape :: "row list \<Rightarrow> bool" where
  "same_shape xs = list_all (\<lambda>x. list_all (\<lambda>y. length y = length x) xs) xs"

definition stackable :: "ReplayBuffer \<Rightarrow> bool" where
  "stackable b \<longleftrightarrow>
     same_shape (concat (if mode b = ''train_agent'' then buffer_ego_actions b
                         else buffer_scenario_actions b)) \<and>
     same_shape (concat (buffer_obs b)) \<and>
     same_shape (concat (buffer_next_obs b))"

text \<open>The batch that reads the pool at the indices \<open>idx\<close>, and the indices of a draw.\<close>

definition sampled_batch :: "ReplayBuffer \<Rightarrow> nat list \<Rightarrow> batch_dict" where
  "sampled_batch b idx =
     (let k = buffer_capacity b div num_scenario b
      in [(''action'', Arr2 (map (\<lambda>i. window_pool k
                 (if mode b = ''train_agent'' then buffer_ego_actions b
                  else buffer_scenario_actions b) ! i) idx)),
          (''state'', Arr2 (map (\<lambda>i. window_pool k (buffer_obs b) ! i) idx)),
          (''n_state'', Arr2 (map (\<lambda>i. window_pool k (buffer_next_obs b) ! i) idx)),
          (''reward'', Arr1 (map (\<lambda>i. window_pool k (buffer_rewards b) ! i) idx)),
          (''done'', Arr1 (map (\<lambda>i. window_pool k (buffer_dones b) ! i) idx))])"

definition drawn_indices :: "rng \<Rightarrow> nat \<Rightarrow> nat \<Rightarrow> nat list" where
  "drawn_indices g high n = map (\<lambda>j. raw_ints g (ints_used g + j) mod high) [0..<n]"

section \<open>Example inputs\<close>

definition ex_rng :: rng where
  "ex_rng = \<lparr> raw_ints = (\<lambda>k. 3 * k + 1), ints_used = 0,
              raw_normals = (\<lambda>k. 0), normals_used = 0 \<rparr>"

text \<open>One step of two scenarios, and the buffer that holds it.\<close>

definition ex_data :: data_list where
  "ex_data = \<lparr> ego_actions = [[0], [1]], scenario_actions = [[2], [3]],
               obs = [[0, 0], [-1, 0]], next_obs = [[0, 1], [-1, 1]],
               rewards = [1, 2], dones = [0, 1], infos = [0, 1] \<rparr>"

definition ex_buffer :: ReplayBuffer where
  "ex_buffer =
     \<lparr> mode = ''train_agent'', buffer_capacity = 1000, num_scenario = 2, buffer_len = 2,
       buffer_ego_actions = [[[0]], [[1]]],
       buffer_scenario_actions = [[[2]], [[3]]],
       buffer_obs = [[[0, 0]], [[-1, 0]]],
       buffer_next_obs = [[[0, 1]], [[-1, 1]]],
       buffer_rewards = [[1], [2]],
       buffer_dones = [[0], [1]] \<rparr>"

text \<open>The same transitions in a buffer of capacity 1 for the two scenarios.\<close>

definition starved_buffer :: ReplayBuffer where
  "starved_buffer = ex_buffer \<lparr> buffer_capacity := 1 \<rparr>"

text \<open>
  Toy layers: the actor's mean head is the sum of its parameters and its log-std head is 0;
  a critic adds its parameters and its inputs; the optimizer halves every parameter and
  counts its steps.
\<close>

definition ex_torch :: "nat torch" where
  "ex_torch =
     \<lparr> actor_layers = (\<lambda>\<theta> x. [(sum_list \<theta>, 0)]),
       critic_layers = (\<lambda>\<theta> x. sum_list \<theta> + sum_list x),
       q_layers = (\<lambda>\<theta> x a. sum_list \<theta> + sum_list x + sum_list a),
       opt_step = (\<lambda>opt loss \<theta>. (Suc opt, map (\<lambda>p. p / 2) \<theta>)) \<rparr>"

definition ex_config :: config where
  "ex_config =
     \<lparr> config_buffer_start_training = 10, config_min_Val = 0, config_batch_size = 2,
       config_update_iteration = 1, config_gamma = 1 / 2, config_tau = 1 / 4,
       config_suppression_weight = 5 \<rparr>"

definition ex_sac :: "nat SAC" where
  "ex_sac = SAC_init ex_config [0] [4] [0] [8] [1] [0] 0"

text \<open>The same agent with a warm-up threshold of one transition.\<close>

definition eager_sac :: "nat SAC" where
  "eager_sac = ex_sac \<lparr> cfg := (cfg ex_sac) \<lparr> buffer_start_training := 1 \<rparr> \<rparr>"

text \<open>A buffer that serves one fixed batch with the seven keys the training step reads.\<close>

definition ex_batch :: batch_dict where
  "ex_batch =
     [(''state'', Arr2 [[0], [-1]]),
      (''task_action'', Arr2 [[0], [0]]),
      (''mixed_action'', Arr2 [[0], [0]]),
      (''reward'', Arr1 [3, 5]),
      (''risk'', Arr1 [1, 1]),
      (''n_state'', Arr2 [[2], [6]]),
      (''done'', Arr1 [0, 1])]"


definition ex_train_batch :: train_batch where
  "ex_train_batch =
     \<lparr> bn_s = [[0], [-1]], bn_a_task = [[0], [0]], bn_a_mixed = [[0], [0]],
       bn_r = [3, 5], bn_r_risk = [-1, -1], bn_s_next = [[2], [6]], bn_d = [1, 0] \<rparr>"

text \<open>Every component of every row lies in the closed interval from -1 to 1.\<close>

definition closed_bounded :: "row list \<Rightarrow> bool" where
  "closed_bounded a = list_all (list_all (\<lambda>x. - 1 \<le> x \<and> x \<le> 1)) a"

text \<open>
  An agent whose task actor has the pre-activation 10 of the mean; layers whose log-std head
  is 10, or -104; a random source whose normal draws are all 1.
\<close>

definition sat_sac :: "nat SAC" where
  "sat_sac = ex_sac \<lparr> policy_net := [10] \<rparr>"

definition wide_torch :: "nat torch" where
  "wide_torch = ex_torch \<lparr> actor_layers := (\<lambda>\<theta> x. [(sum_list \<theta>, 10)]) \<rparr>"

definition narrow_torch :: "nat torch" where
  "narrow_torch = ex_torch \<lparr> actor_layers := (\<lambda>\<theta> x. [(sum_list \<theta>, - 104)]) \<rparr>"

definition one_rng :: rng where
  "one_rng = ex_rng \<lparr> raw_normals := (\<lambda>k. 1) \<rparr>"


text \<open>
  For the distribution of a draw: the vectors of \<open>n\<close> raw draws below \<open>K\<close> (equally likely
  when the raw draws are uniform on \<open>[0, K)\<close> and independent), and the random source whose
  next raw integer draws are the entries of \<open>w\<close>.
\<close>

definition raw_vectors :: "nat \<Rightarrow> nat \<Rightarrow> nat list set" where
  "raw_vectors K n = {w. length w = n \<and> (\<forall>r\<in>set w. r < K)}"

definition with_draws :: "rng \<Rightarrow> nat list \<Rightarrow> rng" where
  "with_draws g w =
     g\<lparr>raw_ints := (\<lambda>k. if ints_used g \<le> k \<and> k - ints_used g < length w
                          then w ! (k - ints_used g) else raw_ints g k)\<rparr>"

section \<open>Auxiliary lemmas\<close>

lemma bnd_Inr [simp]: "bnd (Inr x) f = f x" by (simp add: bnd_def)

lemma bnd_Inl [simp]: "bnd (Inl e) f = Inl e" by (simp add: bnd_def)

lemma most_recent_drop: "most_recent k xs = drop (length xs - k) xs"
  by (simp add: most_recent_def rev_take)

lemma start_idx_of_eq: "start_idx_of n k = n - k"
  by (simp add: start_idx_of_def)

lemma wf_init: "wf_buffer (ReplayBuffer_init n m cap)"
  by (simp add: wf_buffer_def aligned_def ReplayBuffer_init_def list_all_iff)

lemma prepare_one_wf:
  assumes "wf_buffer b" "s_i < num_scenario b"
  shows "prepare_one b k s_i p =
     Inr \<lparr> prepared_ego_actions = prepared_ego_actions p @ most_recent k (buffer_ego_actions b ! s_i),
           prepared_scenario_actions = prepared_scenario_actions p @ most_recent k (buffer_scenario_actions b ! s_i),
           prepared_obs = prepared_obs p @ most_recent k (buffer_obs b ! s_i),
           prepared_next_obs = prepared_next_obs p @ most_recent k (buffer_next_obs b ! s_i),
           prepared_rewards = prepared_rewards p @ most_recent k (buffer_rewards b ! s_i),
           prepared_dones = prepared_dones p @ most_recent k (buffer_dones b ! s_i) \<rparr>"
  using assms
  by (simp add: prepare_one_def py_get_def wf_buffer_def aligned_def list_all_iff most_recent_drop start_idx_of_eq Let_def)

lemma prepare_loop_wf:
  assumes "wf_buffer b" "\<forall>i\<in>set sis. i < num_scenario b"
  shows "prepare_loop b k sis p =
     Inr \<lparr> prepared_ego_actions = prepared_ego_actions p @ concat (map (\<lambda>i. most_recent k (buffer_ego_actions b ! i)) sis),
           prepared_scenario_actions = prepared_scenario_actions p @ concat (map (\<lambda>i. most_recent k (buffer_scenario_actions b ! i)) sis),
           prepared_obs = prepared_obs p @ concat (map (\<lambda>i. most_recent k (buffer_obs b ! i)) sis),
           prepared_next_obs = prepared_next_obs p @ concat (map (\<lambda>i. most_recent k (buffer_next_obs b ! i)) sis),
           prepared_rewards = prepared_rewards p @ concat (map (\<lambda>i. most_recent k (buffer_rewards b ! i)) sis),
           prepared_dones = prepared_dones p @ concat (map (\<lambda>i. most_recent k (buffer_dones b ! i)) sis) \<rparr>"
  using assms(2)
proof (induction sis arbitrary: p)
  case Nil
  then show ?case by simp
next
  case (Cons s_i rest)
  then show ?case
    by (simp add: prepare_one_wf [OF assms(1)])
qed

lemma map_nth_upt: "length xss = n \<Longrightarrow> map (\<lambda>i. f (xss ! i)) [0..<n] = map f xss"
  by (auto simp add: list_eq_iff_nth_eq)

lemma prepare_wf:
  assumes "wf_buffer b" "0 < num_scenario b"
  shows "prepare b =
     Inr \<lparr> prepared_ego_actions = window_pool (buffer_capacity b div num_scenario b) (buffer_ego_actions b),
           prepared_scenario_actions = window_pool (buffer_capacity b div num_scenario b) (buffer_scenario_actions b),
           prepared_obs = window_pool (buffer_capacity b div num_scenario b) (buffer_obs b),
           prepared_next_obs = window_pool (buffer_capacity b div num_scenario b) (buffer_next_obs b),
           prepared_rewards = window_pool (buffer_capacity b div num_scenario b) (buffer_rewards b),
           prepared_dones = window_pool (buffer_capacity b div num_scenario b) (buffer_dones b) \<rparr>"
proof -
  have len: "length (buffer_ego_actions b) = num_scenario b"
     "length (buffer_scenario_actions b) = num_scenario b"
     "length (buffer_obs b) = num_scenario b"
     "length (buffer_next_obs b) = num_scenario b"
     "length (buffer_rewards b) = num_scenario b"
     "length (buffer_dones b) = num_scenario b"
    using assms(1) by (simp_all add: wf_buffer_def aligned_def)
  show ?thesis
    using assms(2)
    by (simp add: prepare_def prepare_loop_wf [OF assms(1)] empty_pools_def window_pool_def
        map_nth_upt [OF len(1)] map_nth_upt [OF len(2)] map_nth_upt [OF len(3)]
        map_nth_upt [OF len(4)] map_nth_upt [OF len(5)] map_nth_upt [OF len(6)])
qed

lemma take_idx_ok:
  "\<forall>i\<in>set idx. i < length xs \<Longrightarrow> take_idx xs idx = Inr (map (\<lambda>i. xs ! i) idx)"
  by (induction idx) (simp_all add: py_get_def)

lemma length_window_pool:
  "length (window_pool k xss) = sum_list (map (\<lambda>n. min n k) (map length xss))"
  by (induction xss) (simp_all add: window_pool_def most_recent_def)

lemma window_pool_aligned:
  assumes "length xss = length yss" "\<forall>i<length xss. length (xss ! i) = length (yss ! i)"
  shows "length (window_pool k xss) = length (window_pool k yss)"
proof -
  have "map length xss = map length yss"
    using assms by (simp add: list_eq_iff_nth_eq)
  then show ?thesis by (simp add: length_window_pool)
qed

lemma set_window_pool: "set (window_pool k xss) \<subseteq> set (concat xss)"
  by (auto simp add: window_pool_def most_recent_def dest!: in_set_takeD)

lemma window_pool_nonempty:
  assumes "0 < k" "0 < sum_list (map length xss)"
  shows "window_pool k xss \<noteq> []"
proof -
  have "\<not> (\<forall>n\<in>set (map length xss). n = 0)"
    using assms(2) sum_list_eq_0_iff [of "map length xss"] by linarith
  then obtain xs where xs: "xs \<in> set xss" "xs \<noteq> []"
    by auto
  then have "most_recent k xs \<noteq> []"
    using assms(1) by (simp add: most_recent_def)
  with xs(1) show ?thesis
    unfolding window_pool_def by simp blast
qed

lemma np_stack_rows_ok:
  assumes "xs \<noteq> []" "same_shape xs"
  shows "np_stack_rows xs = Inr xs"
proof (cases xs)
  case Nil
  with assms(1) show ?thesis by simp
next
  case (Cons x rest)
  have "list_all (\<lambda>y. length y = length x) xs"
    using assms(2) Cons by (simp add: same_shape_def)
  then show ?thesis using Cons by (simp add: np_stack_rows_def)
qed

lemma same_shape_subset:
  assumes "same_shape ys" "set xs \<subseteq> set ys"
  shows "same_shape xs"
  unfolding same_shape_def list_all_iff
proof (intro ballI)
  fix x y assume "x \<in> set xs" "y \<in> set xs"
  then have "x \<in> set ys" "y \<in> set ys" using assms(2) by blast+
  then show "length y = length x"
    using assms(1) unfolding same_shape_def list_all_iff by blast
qed

lemma randint_ok:
  "0 < high \<Longrightarrow> randint g high n = Inr (drawn_indices g high n, g\<lparr>ints_used := ints_used g + n\<rparr>)"
  by (simp add: randint_def drawn_indices_def)

lemma drawn_indices_bound: "0 < high \<Longrightarrow> \<forall>i\<in>set (drawn_indices g high n). i < high"
  by (simp add: drawn_indices_def)

lemma length_drawn_indices: "length (drawn_indices g high n) = n"
  by (simp add: drawn_indices_def)

lemma sample_wf:
  assumes wf: "wf_buffer b"
      and stored: "0 < buffer_len b"
      and window: "0 < buffer_capacity b div num_scenario b"
      and shapes: "stackable b"
  shows "sample b n g =
     Inr (sampled_batch b
            (drawn_indices g
               (length (window_pool (buffer_capacity b div num_scenario b) (buffer_rewards b))) n),
          g\<lparr>ints_used := ints_used g + n\<rparr>)"
proof -
  define k where "k = buffer_capacity b div num_scenario b"
  define P where "P = length (window_pool k (buffer_rewards b))"
  define idx where "idx = drawn_indices g P n"
  have ns: "0 < num_scenario b"
    using window by (cases "num_scenario b = 0") simp_all
  have rw_ne: "window_pool k (buffer_rewards b) \<noteq> []"
    using wf stored window by (intro window_pool_nonempty) (simp_all add: k_def wf_buffer_def aligned_def)
  then have P: "0 < P" by (simp add: P_def)
  have al: "\<forall>i<num_scenario b.
       length (buffer_ego_actions b ! i) = length (buffer_rewards b ! i) \<and>
       length (buffer_scenario_actions b ! i) = length (buffer_rewards b ! i) \<and>
       length (buffer_obs b ! i) = length (buffer_rewards b ! i) \<and>
       length (buffer_next_obs b ! i) = length (buffer_rewards b ! i) \<and>
       length (buffer_dones b ! i) = length (buffer_rewards b ! i)"
    using wf by (simp add: wf_buffer_def aligned_def list_all_iff)
  have len: "length (buffer_ego_actions b) = num_scenario b"
     "length (buffer_scenario_actions b) = num_scenario b"
     "length (buffer_obs b) = num_scenario b"
     "length (buffer_next_obs b) = num_scenario b"
     "length (buffer_rewards b) = num_scenario b"
     "length (buffer_dones b) = num_scenario b"
    using wf by (simp_all add: wf_buffer_def aligned_def)
  have Pea: "length (window_pool k (buffer_ego_actions b)) = P"
    unfolding P_def using al len by (intro window_pool_aligned) simp_all
  have Psa: "length (window_pool k (buffer_scenario_actions b)) = P"
    unfolding P_def using al len by (intro window_pool_aligned) simp_all
  have Pob: "length (window_pool k (buffer_obs b)) = P"
    unfolding P_def using al len by (intro window_pool_aligned) simp_all
  have Pno: "length (window_pool k (buffer_next_obs b)) = P"
    unfolding P_def using al len by (intro window_pool_aligned) simp_all
  have Pdn: "length (window_pool k (buffer_dones b)) = P"
    unfolding P_def using al len by (intro window_pool_aligned) simp_all
  have Prw: "length (window_pool k (buffer_rewards b)) = P"
    by (simp add: P_def)
  have idx: "\<forall>i\<in>set idx. i < P"
    unfolding idx_def using P by (rule drawn_indices_bound)
  have st_ob: "np_stack_rows (window_pool k (buffer_obs b)) = Inr (window_pool k (buffer_obs b))"
  proof (rule np_stack_rows_ok)
    show "window_pool k (buffer_obs b) \<noteq> []"
      using Pob P by auto
    have "same_shape (concat (buffer_obs b))"
      using shapes by (simp add: stackable_def)
    then show "same_shape (window_pool k (buffer_obs b))"
      by (rule same_shape_subset) (rule set_window_pool)
  qed
  have st_no: "np_stack_rows (window_pool k (buffer_next_obs b)) = Inr (window_pool k (buffer_next_obs b))"
  proof (rule np_stack_rows_ok)
    show "window_pool k (buffer_next_obs b) \<noteq> []"
      using Pno P by auto
    have "same_shape (concat (buffer_next_obs b))"
      using shapes by (simp add: stackable_def)
    then show "same_shape (window_pool k (buffer_next_obs b))"
      by (rule same_shape_subset) (rule set_window_pool)
  qed
  have st_ea: "np_stack_rows (window_pool k (buffer_ego_actions b)) = Inr (window_pool k (buffer_ego_actions b))"
    if m: "mode b = ''train_agent''"
  proof (rule np_stack_rows_ok)
    show "window_pool k (buffer_ego_actions b) \<noteq> []"
      using Pea P by auto
    have "same_shape (concat (buffer_ego_actions b))"
      using shapes m by (simp add: stackable_def)
    then show "same_shape (window_pool k (buffer_ego_actions b))"
      by (rule same_shape_subset) (rule set_window_pool)
  qed
  have st_sa: "np_stack_rows (window_pool k (buffer_scenario_actions b)) = Inr (window_pool k (buffer_scenario_actions b))"
    if m: "mode b \<noteq> ''train_agent''"
  proof (rule np_stack_rows_ok)
    show "window_pool k (buffer_scenario_actions b) \<noteq> []"
      using Psa P by auto
    have "same_shape (concat (buffer_scenario_actions b))"
      using shapes m by (simp add: stackable_def)
    then show "same_shape (window_pool k (buffer_scenario_actions b))"
      by (rule same_shape_subset) (rule set_window_pool)
  qed
  have st_rw: "np_stack_scalars (window_pool k (buffer_rewards b)) = Inr (window_pool k (buffer_rewards b))"
    using rw_ne by (simp add: np_stack_scalars_def)
  have st_dn: "np_stack_scalars (window_pool k (buffer_dones b)) = Inr (window_pool k (buffer_dones b))"
    using Pdn P by (auto simp add: np_stack_scalars_def)
  have t_ea: "take_idx (window_pool k (buffer_ego_actions b)) idx = Inr (map (\<lambda>i. window_pool k (buffer_ego_actions b) ! i) idx)"
    using idx Pea by (intro take_idx_ok) simp
  have t_sa: "take_idx (window_pool k (buffer_scenario_actions b)) idx = Inr (map (\<lambda>i. window_pool k (buffer_scenario_actions b) ! i) idx)"
    using idx Psa by (intro take_idx_ok) simp
  have t_ob: "take_idx (window_pool k (buffer_obs b)) idx = Inr (map (\<lambda>i. window_pool k (buffer_obs b) ! i) idx)"
    using idx Pob by (intro take_idx_ok) simp
  have t_no: "take_idx (window_pool k (buffer_next_obs b)) idx = Inr (map (\<lambda>i. window_pool k (buffer_next_obs b) ! i) idx)"
    using idx Pno by (intro take_idx_ok) simp
  have t_rw: "take_idx (window_pool k (buffer_rewards b)) idx = Inr (map (\<lambda>i. window_pool k (buffer_rewards b) ! i) idx)"
    using idx Prw by (intro take_idx_ok) simp
  have t_dn: "take_idx (window_pool k (buffer_dones b)) idx = Inr (map (\<lambda>i. window_pool k (buffer_dones b) ! i) idx)"
    using idx Pdn by (intro take_idx_ok) simp
  have prep: "prepare b =
     Inr \<lparr> prepared_ego_actions = window_pool k (buffer_ego_actions b),
           prepared_scenario_actions = window_pool k (buffer_scenario_actions b),
           prepared_obs = window_pool k (buffer_obs b),
           prepared_next_obs = window_pool k (buffer_next_obs b),
           prepared_rewards = window_pool k (buffer_rewards b),
           prepared_dones = window_pool k (buffer_dones b) \<rparr>"
    unfolding k_def by (rule prepare_wf [OF wf ns])
  have rnd: "randint g P n = Inr (idx, g\<lparr>ints_used := ints_used g + n\<rparr>)"
    unfolding idx_def using P by (rule randint_ok)
  show ?thesis
  proof (cases "mode b = ''train_agent''")
    case True
    show ?thesis
      unfolding sample_def prep
      by (simp add: Prw rnd True st_ea [OF True] st_ob st_no st_rw st_dn t_ea t_ob t_no t_rw t_dn
           sampled_batch_def k_def [symmetric] P_def [symmetric] idx_def [symmetric])
  next
    case False
    show ?thesis
      unfolding sample_def prep
      by (simp add: Prw rnd False st_sa [OF False] st_ob st_no st_rw st_dn t_sa t_ob t_no t_rw t_dn
           sampled_batch_def k_def [symmetric] P_def [symmetric] idx_def [symmetric])
  qed
qed

lemma sum_length_append_at:
  assumes "i < length xss"
  shows "sum_list (map length (xss[i := xss ! i @ [v]])) = Suc (sum_list (map length xss))"
  using assms
proof (induction xss arbitrary: i)
  case Nil
  then show ?case by simp
next
  case (Cons xs xss)
  then show ?case by (cases i) simp_all
qed

lemma store_one_effect:
  assumes "store_one d s_i b = Inr b'"
  shows "\<exists>sid ea sa ob nob r dn. sid < length (buffer_ego_actions b)
     \<and> sid < length (buffer_scenario_actions b) \<and> sid < length (buffer_obs b)
     \<and> sid < length (buffer_next_obs b) \<and> sid < length (buffer_rewards b)
     \<and> sid < length (buffer_dones b)
     \<and> b' = b\<lparr> buffer_ego_actions := (buffer_ego_actions b)[sid := buffer_ego_actions b ! sid @ [ea]],
              buffer_scenario_actions := (buffer_scenario_actions b)[sid := buffer_scenario_actions b ! sid @ [sa]],
              buffer_obs := (buffer_obs b)[sid := buffer_obs b ! sid @ [ob]],
              buffer_next_obs := (buffer_next_obs b)[sid := buffer_next_obs b ! sid @ [nob]],
              buffer_rewards := (buffer_rewards b)[sid := buffer_rewards b ! sid @ [r]],
              buffer_dones := (buffer_dones b)[sid := buffer_dones b ! sid @ [dn]] \<rparr>"
  using assms unfolding store_one_def py_get_def py_append_at_def
  by (simp split: if_splits) blast

lemma store_one_aligned:
  assumes "aligned b" "store_one d s_i b = Inr b'"
  shows "aligned b' \<and> num_scenario b' = num_scenario b \<and> buffer_len b' = buffer_len b
       \<and> sum_list (map length (buffer_rewards b')) = Suc (sum_list (map length (buffer_rewards b)))"
proof -
  from store_one_effect [OF assms(2)] obtain sid ea sa ob nob r dn where
    sid: "sid < length (buffer_rewards b)" and
    b': "b' = b\<lparr> buffer_ego_actions := (buffer_ego_actions b)[sid := buffer_ego_actions b ! sid @ [ea]],
              buffer_scenario_actions := (buffer_scenario_actions b)[sid := buffer_scenario_actions b ! sid @ [sa]],
              buffer_obs := (buffer_obs b)[sid := buffer_obs b ! sid @ [ob]],
              buffer_next_obs := (buffer_next_obs b)[sid := buffer_next_obs b ! sid @ [nob]],
              buffer_rewards := (buffer_rewards b)[sid := buffer_rewards b ! sid @ [r]],
              buffer_dones := (buffer_dones b)[sid := buffer_dones b ! sid @ [dn]] \<rparr>"
    by blast
  have "aligned b'"
    using assms(1) sid unfolding b' aligned_def list_all_iff
    by (simp add: nth_list_update)
  moreover have "sum_list (map length (buffer_rewards b')) = Suc (sum_list (map length (buffer_rewards b)))"
    unfolding b' using sid by (simp add: sum_length_append_at)
  ultimately show ?thesis by (simp add: b')
qed

lemma store_loop_aligned:
  assumes "aligned b" "store_loop d sis b = Inr b'"
  shows "aligned b' \<and> num_scenario b' = num_scenario b \<and> buffer_len b' = buffer_len b
       \<and> sum_list (map length (buffer_rewards b')) = sum_list (map length (buffer_rewards b)) + length sis"
  using assms
proof (induction sis arbitrary: b)
  case Nil
  then show ?case by simp
next
  case (Cons s_i rest)
  from Cons.prems(2) obtain b1 where b1: "store_one d s_i b = Inr b1"
    and rest: "store_loop d rest b1 = Inr b'"
    by (cases "store_one d s_i b") simp_all
  from store_one_aligned [OF Cons.prems(1) b1] Cons.IH [OF _ rest]
  show ?case by simp
qed

lemma store_wf:
  assumes "wf_buffer b" "store b d = Inr b'"
  shows "wf_buffer b'"
proof -
  have a: "aligned (b\<lparr>buffer_len := buffer_len b + length (infos d)\<rparr>)"
    using assms(1) by (simp add: wf_buffer_def aligned_def)
  from store_loop_aligned [OF a assms(2) [unfolded store_def]] assms(1)
  show ?thesis by (simp add: wf_buffer_def)
qed

lemma drawn_with_draws:
  assumes "length w = n"
  shows "drawn_indices (with_draws g w) P n = map (\<lambda>r. r mod P) w"
  using assms by (simp add: drawn_indices_def with_draws_def list_eq_iff_nth_eq)

lemma card_residue:
  assumes "i < P"
  shows "card {r. r < M * P \<and> r mod P = i} = M"
proof -
  have P: "0 < P" using assms by simp
  have "{r. r < M * P \<and> r mod P = i} = (\<lambda>k. k * P + i) ` {..<M}"
  proof (intro set_eqI iffI)
    fix r assume "r \<in> {r. r < M * P \<and> r mod P = i}"
    then have r: "r < M * P" "r mod P = i" by simp_all
    have "r div P < M"
      using r(1) P by (simp add: less_mult_imp_div_less)
    moreover have "r = (r div P) * P + i"
      using r(2) div_mult_mod_eq [of r P] by simp
    ultimately show "r \<in> (\<lambda>k. k * P + i) ` {..<M}" by blast
  next
    fix r assume "r \<in> (\<lambda>k. k * P + i) ` {..<M}"
    then obtain k where k: "k < M" "r = k * P + i" by blast
    have "k * P + i < M * P"
    proof -
      have "k * P + i < k * P + P" using assms by simp
      also have "\<dots> = Suc k * P" by simp
      also have "\<dots> \<le> M * P" using k(1) by (intro mult_le_mono1) simp
      finally show ?thesis .
    qed
    moreover have "(k * P + i) mod P = i" using assms by simp
    ultimately show "r \<in> {r. r < M * P \<and> r mod P = i}" using k(2) by simp
  qed
  moreover have "inj_on (\<lambda>k. k * P + i) {..<M}"
    using P by (auto simp add: inj_on_def)
  ultimately show ?thesis by (simp add: card_image)
qed

lemma card_vectors:
  assumes "\<forall>i\<in>set v. i < P"
  shows "card {w \<in> raw_vectors (M * P) (length v). map (\<lambda>r. r mod P) w = v} = M ^ length v"
  using assms
proof (induction v)
  case Nil
  have "{w \<in> raw_vectors (M * P) (length ([]::nat list)). map (\<lambda>r. r mod P) w = []} = {[]}"
    by (auto simp add: raw_vectors_def)
  then show ?case by simp
next
  case (Cons i v)
  let ?A = "{r. r < M * P \<and> r mod P = i}"
  let ?B = "{w \<in> raw_vectors (M * P) (length v). map (\<lambda>r. r mod P) w = v}"
  have "{w \<in> raw_vectors (M * P) (length (i # v)). map (\<lambda>r. r mod P) w = i # v}
          = (\<lambda>(r, w). r # w) ` (?A \<times> ?B)"
  proof (intro set_eqI iffI)
    fix w assume "w \<in> {w \<in> raw_vectors (M * P) (length (i # v)). map (\<lambda>r. r mod P) w = i # v}"
    then have w: "length w = Suc (length v)" "\<forall>r\<in>set w. r < M * P"
      "map (\<lambda>r. r mod P) w = i # v"
      by (simp_all add: raw_vectors_def)
    then obtain r w' where rw: "w = r # w'" by (cases w) simp_all
    with w have "r \<in> ?A" "w' \<in> ?B" by (simp_all add: raw_vectors_def)
    with rw show "w \<in> (\<lambda>(r, w). r # w) ` (?A \<times> ?B)" by blast
  next
    fix w assume "w \<in> (\<lambda>(r, w). r # w) ` (?A \<times> ?B)"
    then obtain r w' where "w = r # w'" "r \<in> ?A" "w' \<in> ?B" by auto
    then show "w \<in> {w \<in> raw_vectors (M * P) (length (i # v)). map (\<lambda>r. r mod P) w = i # v}"
      by (simp add: raw_vectors_def)
  qed
  moreover have "inj_on (\<lambda>(r, w). r # w) (?A \<times> ?B)"
    by (auto simp add: inj_on_def)
  moreover have "card ?A = M"
    using Cons.prems by (intro card_residue) simp
  moreover have "card ?B = M ^ length v"
    using Cons.prems by (intro Cons.IH) simp
  ultimately show ?case
    by (simp add: card_image card_cartesian_product)
qed

lemma uniform_index_vectors:
  assumes "length v = n" "\<forall>i\<in>set v. i < P"
  shows "card {w \<in> raw_vectors (M * P) n. drawn_indices (with_draws g w) P n = v} = M ^ n"
proof -
  have eq: "drawn_indices (with_draws g w) P n = map (\<lambda>r. r mod P) w"
    if "w \<in> raw_vectors (M * P) n" for w
    using that by (intro drawn_with_draws) (simp add: raw_vectors_def)
  have "{w \<in> raw_vectors (M * P) n. drawn_indices (with_draws g w) P n = v}
      = {w \<in> raw_vectors (M * P) n. map (\<lambda>r. r mod P) w = v}"
    by (rule Collect_cong) (simp add: eq cong: conj_cong)
  then show ?thesis using card_vectors [OF assms(2), of M] assms(1) by simp
qed

section \<open>Properties of the replay buffer\<close>

lemma upt_two: "[0..<2] = [0, 1]"
  by (simp add: upt_rec)

lemma store_ex_buffer:
  "store (ReplayBuffer_init 2 ''train_agent'' 1000) ex_data = Inr ex_buffer"
  by (simp add: store_def store_one_def py_get_def py_append_at_def ReplayBuffer_init_def
      ex_data_def ex_buffer_def upt_two numeral_2_eq_2)

lemma store_starved_buffer:
  "store (ReplayBuffer_init 2 ''train_agent'' 1) ex_data = Inr starved_buffer"
  by (simp add: store_def store_one_def py_get_def py_append_at_def ReplayBuffer_init_def
      ex_data_def ex_buffer_def starved_buffer_def upt_two numeral_2_eq_2)

lemma wf_ex_buffer: "wf_buffer ex_buffer"
  by (simp add: wf_buffer_def aligned_def ex_buffer_def upt_two)

lemma stackable_ex_buffer: "stackable ex_buffer"
  by (simp add: stackable_def ex_buffer_def same_shape_def)

text \<open>
  C9, as stated, fails: a buffer built with capacity 1 for two scenarios has the window
  \<open>1 div 2 = 0\<close>; after one stored step it holds two transitions, the pool is empty and
  \<^verbatim>\<open>sample(1)\<close> raises \<^verbatim>\<open>ValueError\<close> instead of returning a batch.
\<close>

theorem sample_starved_counterexample:
  "buffer_len starved_buffer = 2 \<and> sample starved_buffer 1 ex_rng = Inl ValueError"
  by (simp add: starved_buffer_def ex_buffer_def sample_def prepare_def prepare_one_def
      py_get_def empty_pools_def start_idx_of_def randint_def upt_two)

text \<open>
  C9, amended: for every buffer state that satisfies the buffer's invariant, holds at least
  one stored transition, has a window \<open>capacity div num_scenario\<close> of at least one and
  stores rows of one shape, \<^verbatim>\<open>sample(n)\<close> returns the five arrays read at \<open>n\<close> indices of
  the pool that concatenates, per scenario, the most recent \<open>capacity div num_scenario\<close>
  transitions; every array has first dimension \<open>n\<close> and \<open>n\<close> draws are consumed. The
  indices are drawn uniformly with replacement: each is a fresh raw draw reduced into the
  pool, and every vector of \<open>n\<close> pool indices arises from the same number \<open>M ^ n\<close> of the
  equally likely vectors of \<open>n\<close> raw draws below \<open>M * pool_size\<close>.
\<close>

theorem sample_first_dimension:
  assumes "wf_buffer b"
      and "0 < buffer_len b"
      and "0 < buffer_capacity b div num_scenario b"
      and "stackable b"
  shows "sample b n g =
           Inr (sampled_batch b (drawn_indices g (pool_size b) n),
                g\<lparr>ints_used := ints_used g + n\<rparr>)
         \<and> list_all (\<lambda>(key, a). first_dim a = n)
              (sampled_batch b (drawn_indices g (pool_size b) n))
         \<and> length (drawn_indices g (pool_size b) n) = n
         \<and> list_all (\<lambda>i. i < pool_size b) (drawn_indices g (pool_size b) n)
         \<and> (\<forall>w. length w = n \<longrightarrow>
               drawn_indices (with_draws g w) (pool_size b) n
                 = map (\<lambda>r. r mod pool_size b) w)
         \<and> (\<forall>M v. length v = n \<and> list_all (\<lambda>i. i < pool_size b) v \<longrightarrow>
               card {w \<in> raw_vectors (M * pool_size b) n.
                       drawn_indices (with_draws g w) (pool_size b) n = v} = M ^ n)"
proof -
  have ne: "window_pool (buffer_capacity b div num_scenario b) (buffer_rewards b) \<noteq> []"
    using assms(1,2,3)
    by (intro window_pool_nonempty) (simp_all add: wf_buffer_def aligned_def)
  then have pos: "0 < pool_size b"
    by (simp add: pool_size_def)
  have c1: "sample b n g =
           Inr (sampled_batch b (drawn_indices g (pool_size b) n),
                g\<lparr>ints_used := ints_used g + n\<rparr>)"
    unfolding pool_size_def by (rule sample_wf [OF assms])
  have c2: "list_all (\<lambda>(key, a). first_dim a = n)
              (sampled_batch b (drawn_indices g (pool_size b) n))"
    by (simp add: sampled_batch_def Let_def length_drawn_indices)
  have c3: "length (drawn_indices g (pool_size b) n) = n"
    by (rule length_drawn_indices)
  have c4: "list_all (\<lambda>i. i < pool_size b) (drawn_indices g (pool_size b) n)"
    using drawn_indices_bound [OF pos] by (simp add: list_all_iff)
  have c5: "\<forall>w. length w = n \<longrightarrow>
               drawn_indices (with_draws g w) (pool_size b) n
                 = map (\<lambda>r. r mod pool_size b) w"
    by (simp add: drawn_with_draws)
  have c6: "\<forall>M v. length v = n \<and> list_all (\<lambda>i. i < pool_size b) v \<longrightarrow>
               card {w \<in> raw_vectors (M * pool_size b) n.
                       drawn_indices (with_draws g w) (pool_size b) n = v} = M ^ n"
    by (intro allI impI uniform_index_vectors) (simp_all add: list_all_iff)
  from c1 c2 c3 c4 c5 c6 show ?thesis by blast
qed

theorem sample_first_dimension_witness:
  "wf_buffer ex_buffer \<and> 0 < buffer_len ex_buffer
   \<and> 0 < buffer_capacity ex_buffer div num_scenario ex_buffer \<and> stackable ex_buffer
   \<and> sample ex_buffer 3 ex_rng =
       Inr ([(''action'', Arr2 [[1], [0], [1]]),
             (''state'', Arr2 [[-1, 0], [0, 0], [-1, 0]]),
             (''n_state'', Arr2 [[-1, 1], [0, 1], [-1, 1]]),
             (''reward'', Arr1 [2, 1, 2]),
             (''done'', Arr1 [1, 0, 1])], ex_rng\<lparr>ints_used := 3\<rparr>)
   \<and> card {w \<in> raw_vectors (5 * 2) 3. drawn_indices (with_draws ex_rng w) 2 3 = [1, 0, 1]}
       = 5 ^ 3"
proof -
  have h2: "0 < buffer_len ex_buffer" by (simp add: ex_buffer_def)
  have h3: "0 < buffer_capacity ex_buffer div num_scenario ex_buffer"
    by (simp add: ex_buffer_def)
  have ps: "pool_size ex_buffer = 2"
    by (simp add: pool_size_def window_pool_def most_recent_def ex_buffer_def)
  have idx: "drawn_indices ex_rng 2 3 = [1, 0, 1]"
    by (simp add: drawn_indices_def ex_rng_def upt_rec)
  have sb: "sampled_batch ex_buffer [1, 0, 1] =
          [(''action'', Arr2 [[1], [0], [1]]),
           (''state'', Arr2 [[-1, 0], [0, 0], [-1, 0]]),
           (''n_state'', Arr2 [[-1, 1], [0, 1], [-1, 1]]),
           (''reward'', Arr1 [2, 1, 2]),
           (''done'', Arr1 [1, 0, 1])]"
    by (simp add: sampled_batch_def Let_def window_pool_def most_recent_def ex_buffer_def)
  have iu: "ints_used ex_rng = 0"
    by (simp add: ex_rng_def)
  note t = sample_first_dimension [OF wf_ex_buffer h2 h3 stackable_ex_buffer, of 3 ex_rng]
  have s: "sample ex_buffer 3 ex_rng =
       Inr ([(''action'', Arr2 [[1], [0], [1]]),
             (''state'', Arr2 [[-1, 0], [0, 0], [-1, 0]]),
             (''n_state'', Arr2 [[-1, 1], [0, 1], [-1, 1]]),
             (''reward'', Arr1 [2, 1, 2]),
             (''done'', Arr1 [1, 0, 1])], ex_rng\<lparr>ints_used := 3\<rparr>)"
    using t [THEN conjunct1] unfolding ps idx sb iu by simp
  have u: "\<forall>M v. length v = 3 \<and> list_all (\<lambda>i. i < 2) v \<longrightarrow>
               card {w \<in> raw_vectors (M * 2) 3.
                       drawn_indices (with_draws ex_rng w) 2 3 = v} = M ^ 3"
    using t unfolding ps by blast
  have "card {w \<in> raw_vectors (5 * 2) 3.
               drawn_indices (with_draws ex_rng w) 2 3 = [1, 0, 1]} = 5 ^ 3"
    using u [rule_format, of "[1, 0, 1]" 5] by simp
  with s wf_ex_buffer h2 h3 stackable_ex_buffer show ?thesis by blast
qed

lemma sample_keys:
  assumes "sample b n g = Inr (batch, g')"
  shows "map fst batch = [''action'', ''state'', ''n_state'', ''reward'', ''done'']"
  using assms unfolding sample_def
  by (auto simp add: bnd_def split: sum.splits prod.splits if_splits)

section \<open>Properties of the training step\<close>

lemma clamp_bounds: "lo \<le> hi \<Longrightarrow> lo \<le> clamp x lo hi \<and> clamp x lo hi \<le> hi"
  by (simp add: clamp_def)

lemma gate_of_nth:
  assumes "i < length q"
  shows "gate_of q ! i = clamp (- (q ! i) * 10 * 2) (1 / 4) (3 / 4)"
  using assms by (simp add: gate_of_def Let_def)

lemma length_gate_of: "length (gate_of q) = length q"
  by (simp add: gate_of_def Let_def)




lemma length_soft_update: "length (soft_update t target live) = length target"
  by (simp add: soft_update_def)


lemma bootstrapped_targets_zero_division:
  assumes "use_recovery (cfg s)" "gamma (cfg s) = 1"
  shows "bootstrapped_targets T s b = Inl ZeroDivisionError"
  using assms
  by (simp add: bootstrapped_targets_def next_q_risk_value_of_def max_terminal_of_def
      py_float_div_def Let_def)

lemma train_iteration_zero_division:
  assumes "replay_sample (batch_size (cfg s)) g = Inr (batch, g1)"
      and "read_batch batch = Inr b"
      and "use_recovery (cfg s)" and "gamma (cfg s) = 1"
  shows "train_iteration T replay_sample s g = Inl ZeroDivisionError"
  unfolding train_iteration_def
  by (simp add: assms(1,2) bootstrapped_targets_zero_division [OF assms(3,4)])


lemma read_batch_Inr:
  assumes "read_batch batch = Inr b"
  shows "lookup batch ''reward'' = Inr (Arr1 (bn_r b))"
    and "lookup batch ''n_state'' = Inr (Arr2 (bn_s_next b))"
    and "\<exists>rk. lookup batch ''risk'' = Inr (Arr1 rk) \<and> bn_r_risk b = map (\<lambda>x. - x) rk"
    and "\<exists>dn. lookup batch ''done'' = Inr (Arr1 dn) \<and> bn_d b = map (\<lambda>x. 1 - x) dn"
    and "length (bn_r b) = length (bn_s b)"
    and "length (bn_r_risk b) = length (bn_s b)"
    and "length (bn_s_next b) = length (bn_s b)"
    and "length (bn_d b) = length (bn_s b)"
  using assms unfolding read_batch_def
  by (auto simp add: bnd_def as_rows_def as_column_def
           split: sum.splits ndarray.splits if_splits)

lemma read_ex_batch: "read_batch ex_batch = Inr ex_train_batch"
  by (simp add: read_batch_def ex_batch_def lookup_def as_rows_def as_column_def
      ex_train_batch_def)

text \<open>
  C8: below the warm-up threshold \<^verbatim>\<open>train\<close> returns at once. The agent (parameters,
  optimizer states, target networks) and the random source are returned as they were,
  whatever the buffer's \<^verbatim>\<open>sample\<close> would do: it is not called.
\<close>

theorem train_below_warm_up:
  assumes "int replay_buffer_len < buffer_start_training (cfg s)"
  shows "train T s replay_buffer_len replay_sample g = Inr (s, g)"
  using assms by (simp add: train_def)

theorem train_below_warm_up_witness:
  "int (buffer_len ex_buffer) < buffer_start_training (cfg ex_sac)
   \<and> train_on ex_torch ex_sac ex_buffer ex_rng = Inr (ex_sac, ex_rng)"
proof -
  have h: "int (buffer_len ex_buffer) < buffer_start_training (cfg ex_sac)"
    by (simp add: ex_buffer_def ex_sac_def SAC_init_def ex_config_def)
  show ?thesis
    using h train_below_warm_up [OF h, of ex_torch "sample ex_buffer" ex_rng]
    by (simp add: train_on_def)
qed



text \<open>
  C3, as stated, fails in one point: the weight of the gate is not a configured value.
  The agent built from a configuration whose \<^verbatim>\<open>suppression_weight\<close> is 5 gates the
  risk estimate \<open>-1/50\<close> with \<open>clamp (1/50 * 10 * 2) = 2/5\<close> and blends the targets
  \<open>1\<close> and \<open>-1/50\<close> to \<open>74/125\<close>; with the configured weight the gate would be
  \<open>clamp (1/50 * 5 * 2) = 1/4\<close> and the blend \<open>149/200\<close>.
\<close>

theorem gate_weight_counterexample:
  "config_suppression_weight ex_config = 5
   \<and> ex_sac = SAC_init ex_config [0] [4] [0] [8] [1] [0] 0
   \<and> gate_of [- 1 / 50] = [2 / 5]
   \<and> log_policy_target_of (cfg ex_sac) [1] [0] [- 1 / 50] [0] = [74 / 125]
   \<and> clamp (- (- 1 / 50) * config_suppression_weight ex_config * 2) (1 / 4) (3 / 4) = 1 / 4
   \<and> (1 - 0) * (1 - clamp (- (- 1 / 50) * config_suppression_weight ex_config * 2)
                       (1 / 4) (3 / 4))
       + clamp (- (- 1 / 50) * config_suppression_weight ex_config * 2) (1 / 4) (3 / 4)
         * (- 1 / 50 - 0) = (149 / 200 :: real)"
  by (simp add: ex_config_def ex_sac_def SAC_init_def gate_of_def log_policy_target_of_def
      clamp_def Let_def)

text \<open>
  C3, amended: with recovery and suppression enabled, the policy target of every batch
  element is \<open>new_Q - V\<close> blended with the recovery target \<open>new_Q_risk - V_risk\<close> as
  \<open>target * (1 - gate) + gate * recovery_target\<close>, where the gate is
  \<open>clamp (- new_Q_risk * 10 * 2) (1/4) (3/4)\<close> with the weight the literal 10 of the source;
  the gate is a constant of the policy loss and lies in \<open>[1/4, 3/4]\<close>.
\<close>

theorem policy_target_gate:
  assumes "use_recovery c" and "use_suppression c"
      and "length new_Q = n" and "length v = n"
      and "length new_Q_risk = n" and "length v_risk = n"
      and "i < n"
  shows "log_policy_target_of c new_Q v new_Q_risk v_risk ! i =
           (new_Q ! i - v ! i) * (1 - gate_of new_Q_risk ! i)
             + gate_of new_Q_risk ! i * (new_Q_risk ! i - v_risk ! i)
         \<and> gate_of new_Q_risk ! i = clamp (- (new_Q_risk ! i) * 10 * 2) (1 / 4) (3 / 4)
         \<and> 1 / 4 \<le> gate_of new_Q_risk ! i \<and> gate_of new_Q_risk ! i \<le> 3 / 4"
proof -
  have g: "gate_of new_Q_risk ! i = clamp (- (new_Q_risk ! i) * 10 * 2) (1 / 4) (3 / 4)"
    using assms by (simp add: gate_of_nth)
  have "log_policy_target_of c new_Q v new_Q_risk v_risk ! i =
           (new_Q ! i - v ! i) * (1 - gate_of new_Q_risk ! i)
             + gate_of new_Q_risk ! i * (new_Q_risk ! i - v_risk ! i)"
    using assms by (simp add: log_policy_target_of_def Let_def length_gate_of)
  moreover have "1 / 4 \<le> gate_of new_Q_risk ! i \<and> gate_of new_Q_risk ! i \<le> 3 / 4"
    unfolding g by (rule clamp_bounds) simp
  ultimately show ?thesis using g by simp
qed

theorem policy_target_gate_witness:
  "use_recovery (cfg ex_sac) \<and> use_suppression (cfg ex_sac)
   \<and> length [1, 2 :: real] = 2 \<and> length [0, 0 :: real] = 2
   \<and> length [- 1 / 50, - 1 :: real] = 2 \<and> length [0, 1 :: real] = 2 \<and> (1::nat) < 2
   \<and> log_policy_target_of (cfg ex_sac) [1, 2] [0, 0] [- 1 / 50, - 1] [0, 1] ! 1 = - 1
   \<and> gate_of [- 1 / 50, - 1] ! 1 = 3 / 4"
proof -
  have h: "use_recovery (cfg ex_sac)" "use_suppression (cfg ex_sac)"
    by (simp_all add: ex_sac_def SAC_init_def)
  have "gate_of [- 1 / 50, - 1] ! 1 = 3 / 4"
    by (simp add: gate_of_def Let_def clamp_def)
  with policy_target_gate [OF h, of "[1, 2]" 2 "[0, 0]" "[- 1 / 50, - 1]" "[0, 1]" 1] h
  show ?thesis by simp
qed

text \<open>
  C1, as stated, fails: the terminal term multiplies by \<open>done\<close>, not by \<open>1 - done\<close>, and
  the risk that enters the target is the negated risk of the batch. For the example batch
  (risk 1, done 0 and 1, discount \<open>1/2\<close>, target risk values 10 and 14) the code's risk
  targets are 5 and -1; the stated formula gives 7 for the first element with the batch's
  risk and 4 with the negated risk.
\<close>

theorem risk_target_counterexample:
  "read_batch ex_batch = Inr ex_train_batch
   \<and> lookup ex_batch ''risk'' = Inr (Arr1 [1, 1])
   \<and> lookup ex_batch ''done'' = Inr (Arr1 [0, 1])
   \<and> gamma (cfg ex_sac) = 1 / 2
   \<and> Critic_forward ex_torch (Target_value_risk_net ex_sac) (bn_s_next ex_train_batch)
       = [10, 14]
   \<and> bootstrapped_targets ex_torch ex_sac ex_train_batch = Inr ([6, 5], [5, - 1])
   \<and> 1 + (1 - 0) * (1 / 2) * 10
       + clamp (1 / (1 - 1 / 2) * (1 - 0) - 1) 0 (50 / (1 - 1 / 2)) = (7::real)
   \<and> - 1 + (1 - 0) * (1 / 2) * 10
       + clamp (- 1 / (1 - 1 / 2) * (1 - 0) - (- 1)) 0 (50 / (1 - 1 / 2)) = (4::real)"
proof -
  have a: "lookup ex_batch ''risk'' = Inr (Arr1 [1, 1])"
    "lookup ex_batch ''done'' = Inr (Arr1 [0, 1])"
    by (simp_all add: ex_batch_def lookup_def)
  have b: "gamma (cfg ex_sac) = 1 / 2"
    by (simp add: ex_sac_def SAC_init_def ex_config_def)
  have c: "Critic_forward ex_torch (Target_value_risk_net ex_sac) (bn_s_next ex_train_batch)
       = [10, 14]"
    by (simp add: ex_sac_def SAC_init_def ex_torch_def ex_train_batch_def Critic_forward_def)
  have d: "bootstrapped_targets ex_torch ex_sac ex_train_batch = Inr ([6, 5], [5, - 1])"
    by (simp add: ex_sac_def SAC_init_def ex_config_def ex_torch_def ex_train_batch_def
        Critic_forward_def bootstrapped_targets_def next_q_risk_value_of_def
        next_q_value_of_def max_terminal_of_def py_float_div_def clamp_def Let_def)
  have e: "1 + (1 - 0) * (1 / 2) * 10
       + clamp (1 / (1 - 1 / 2) * (1 - 0) - 1) 0 (50 / (1 - 1 / 2)) = (7::real)"
    "- 1 + (1 - 0) * (1 / 2) * 10
       + clamp (- 1 / (1 - 1 / 2) * (1 - 0) - (- 1)) 0 (50 / (1 - 1 / 2)) = (4::real)"
    by (simp_all add: clamp_def)
  from read_ex_batch a b c d e show ?thesis by blast
qed

text \<open>
  C1, amended: with recovery enabled, in every inner iteration the task target of a batch
  element is \<open>reward + (1 - done) * gamma * V_target(n_state)\<close>, and the risk target is
  \<open>r + (1 - done) * gamma * V_risk_target(n_state)\<close> plus the terminal term
  \<open>clamp (r / (1 - gamma) * done - r) 0 (50 / (1 - gamma))\<close>, where \<open>r\<close> is the negated
  risk scalar of the sampled batch (the discount being different from 1).
\<close>

theorem bootstrapped_targets_formula:
  assumes "read_batch batch = Inr b"
      and "lookup batch ''reward'' = Inr (Arr1 reward)"
      and "lookup batch ''risk'' = Inr (Arr1 risk)"
      and "lookup batch ''n_state'' = Inr (Arr2 n_state)"
      and "lookup batch ''done'' = Inr (Arr1 dn)"
      and "use_recovery (cfg s)"
      and "gamma (cfg s) \<noteq> 1"
      and "i < length (bn_s b)"
  shows "\<exists>next_q_value next_q_risk_value.
         bootstrapped_targets T s b = Inr (next_q_value, next_q_risk_value)
       \<and> next_q_value ! i =
           reward ! i
             + (1 - dn ! i) * gamma (cfg s) * critic_layers T (Target_value_net s) (n_state ! i)
       \<and> next_q_risk_value ! i =
           - (risk ! i)
             + (1 - dn ! i) * gamma (cfg s)
                 * critic_layers T (Target_value_risk_net s) (n_state ! i)
             + clamp (- (risk ! i) / (1 - gamma (cfg s)) * dn ! i - (- (risk ! i))) 0
                 (50 / (1 - gamma (cfg s)))"
proof -
  note rb = read_batch_Inr [OF assms(1)]
  have r: "bn_r b = reward" using rb(1) assms(2) by simp
  have ns: "bn_s_next b = n_state" using rb(2) assms(4) by simp
  have rk: "bn_r_risk b = map (\<lambda>x. - x) risk" using rb(3) assms(3) by auto
  have d: "bn_d b = map (\<lambda>x. 1 - x) dn" using rb(4) assms(5) by auto
  have len: "i < length reward" "i < length risk" "i < length n_state" "i < length dn"
    using rb(5,6,7,8) assms(8) r ns rk d by simp_all
  define nq where
    "nq = next_q_value_of (gamma (cfg s)) reward (map (\<lambda>x. 1 - x) dn)
            (Critic_forward T (Target_value_net s) n_state)"
  define mt where
    "mt = map2 (\<lambda>ri di. clamp (ri / (1 - gamma (cfg s)) * (1 - di) - ri) 0
                           (50 / (1 - gamma (cfg s))))
            (map (\<lambda>x. - x) risk) (map (\<lambda>x. 1 - x) dn)"
  define nqr where
    "nqr = map2 (\<lambda>x y. x + y)
             (next_q_value_of (gamma (cfg s)) (map (\<lambda>x. - x) risk) (map (\<lambda>x. 1 - x) dn)
                (Critic_forward T (Target_value_risk_net s) n_state)) mt"
  have bt: "bootstrapped_targets T s b = Inr (nq, nqr)"
    using assms(6,7)
    by (simp add: bootstrapped_targets_def Let_def next_q_risk_value_of_def
        max_terminal_of_def py_float_div_def r ns rk d nq_def nqr_def mt_def)
  have "nq ! i =
           reward ! i
             + (1 - dn ! i) * gamma (cfg s) * critic_layers T (Target_value_net s) (n_state ! i)"
    using len by (simp add: nq_def next_q_value_of_def Critic_forward_def)
  moreover have "nqr ! i =
           - (risk ! i)
             + (1 - dn ! i) * gamma (cfg s)
                 * critic_layers T (Target_value_risk_net s) (n_state ! i)
             + clamp (- (risk ! i) / (1 - gamma (cfg s)) * dn ! i - (- (risk ! i))) 0
                 (50 / (1 - gamma (cfg s)))"
    using len by (simp add: nqr_def mt_def next_q_value_of_def Critic_forward_def)
  ultimately show ?thesis using bt by blast
qed

theorem bootstrapped_targets_formula_witness:
  "read_batch ex_batch = Inr ex_train_batch
   \<and> lookup ex_batch ''reward'' = Inr (Arr1 [3, 5])
   \<and> lookup ex_batch ''risk'' = Inr (Arr1 [1, 1])
   \<and> lookup ex_batch ''n_state'' = Inr (Arr2 [[2], [6]])
   \<and> lookup ex_batch ''done'' = Inr (Arr1 [0, 1])
   \<and> use_recovery (cfg ex_sac) \<and> gamma (cfg ex_sac) \<noteq> 1
   \<and> 1 < length (bn_s ex_train_batch)
   \<and> (\<exists>next_q_value next_q_risk_value.
         bootstrapped_targets ex_torch ex_sac ex_train_batch
           = Inr (next_q_value, next_q_risk_value)
         \<and> next_q_value ! 1 = 5 \<and> next_q_risk_value ! 1 = - 1)"
proof -
  have h2: "lookup ex_batch ''reward'' = Inr (Arr1 [3, 5])"
    and h3: "lookup ex_batch ''risk'' = Inr (Arr1 [1, 1])"
    and h4: "lookup ex_batch ''n_state'' = Inr (Arr2 [[2], [6]])"
    and h5: "lookup ex_batch ''done'' = Inr (Arr1 [0, 1])"
    by (simp_all add: ex_batch_def lookup_def)
  have h6: "use_recovery (cfg ex_sac)" and h7: "gamma (cfg ex_sac) \<noteq> 1"
    by (simp_all add: ex_sac_def SAC_init_def ex_config_def)
  have h8: "1 < length (bn_s ex_train_batch)"
    by (simp add: ex_train_batch_def)
  have c: "gamma (cfg ex_sac) = 1 / 2"
    by (simp add: ex_sac_def SAC_init_def ex_config_def)
  from bootstrapped_targets_formula [OF read_ex_batch h2 h3 h4 h5 h6 h7 h8, of ex_torch]
  have "\<exists>next_q_value next_q_risk_value.
         bootstrapped_targets ex_torch ex_sac ex_train_batch
           = Inr (next_q_value, next_q_risk_value)
         \<and> next_q_value ! 1 = 5 \<and> next_q_risk_value ! 1 = - 1"
    by (simp add: c clamp_def)
  with read_ex_batch h2 h3 h4 h5 h6 h7 h8 show ?thesis by simp
qed

text \<open>
  C4 on the code: the batch that \<^verbatim>\<open>sample\<close> returns has the keys \<^verbatim>\<open>action\<close>,
  \<^verbatim>\<open>state\<close>, \<^verbatim>\<open>n_state\<close>, \<^verbatim>\<open>reward\<close>, \<^verbatim>\<open>done\<close>. The training step, past its
  warm-up threshold, reads \<^verbatim>\<open>state\<close> and then \<^verbatim>\<open>task_action\<close>, and raises
  \<^verbatim>\<open>KeyError\<close>.
\<close>

theorem train_on_buffer_key_error:
  "sample ex_buffer 2 ex_rng =
       Inr ([(''action'', Arr2 [[1], [0]]),
             (''state'', Arr2 [[- 1, 0], [0, 0]]),
             (''n_state'', Arr2 [[- 1, 1], [0, 1]]),
             (''reward'', Arr1 [2, 1]),
             (''done'', Arr1 [1, 0])], ex_rng\<lparr>ints_used := 2\<rparr>)
   \<and> \<not> int (buffer_len ex_buffer) < buffer_start_training (cfg eager_sac)
   \<and> batch_size (cfg eager_sac) = 2
   \<and> train_on ex_torch eager_sac ex_buffer ex_rng = Inl (KeyError ''task_action'')"
proof -
  have h2: "0 < buffer_len ex_buffer" by (simp add: ex_buffer_def)
  have h3: "0 < buffer_capacity ex_buffer div num_scenario ex_buffer"
    by (simp add: ex_buffer_def)
  have idx: "drawn_indices ex_rng 2 2 = [1, 0]"
    by (simp add: drawn_indices_def ex_rng_def upt_rec)
  have sb: "sampled_batch ex_buffer [1, 0] =
          [(''action'', Arr2 [[1], [0]]),
           (''state'', Arr2 [[- 1, 0], [0, 0]]),
           (''n_state'', Arr2 [[- 1, 1], [0, 1]]),
           (''reward'', Arr1 [2, 1]),
           (''done'', Arr1 [1, 0])]"
    by (simp add: sampled_batch_def Let_def window_pool_def most_recent_def ex_buffer_def)
  have iu: "ints_used ex_rng = 0"
    by (simp add: ex_rng_def)
  have ps: "length (window_pool (buffer_capacity ex_buffer div num_scenario ex_buffer)
                     (buffer_rewards ex_buffer)) = 2"
    by (simp add: window_pool_def most_recent_def ex_buffer_def)
  have s: "sample ex_buffer 2 ex_rng =
       Inr ([(''action'', Arr2 [[1], [0]]),
             (''state'', Arr2 [[- 1, 0], [0, 0]]),
             (''n_state'', Arr2 [[- 1, 1], [0, 1]]),
             (''reward'', Arr1 [2, 1]),
             (''done'', Arr1 [1, 0])], ex_rng\<lparr>ints_used := 2\<rparr>)"
    using sample_wf [OF wf_ex_buffer h2 h3 stackable_ex_buffer, of 2 ex_rng]
    unfolding ps idx sb iu by simp
  have c: "\<not> int (buffer_len ex_buffer) < buffer_start_training (cfg eager_sac)"
    "batch_size (cfg eager_sac) = 2" "nat (update_iteration (cfg eager_sac)) = Suc 0"
    by (simp_all add: eager_sac_def ex_sac_def SAC_init_def ex_config_def ex_buffer_def)
  have r: "read_batch [(''action'', Arr2 [[1], [0]]),
             (''state'', Arr2 [[- 1, 0], [0, 0]]),
             (''n_state'', Arr2 [[- 1, 1], [0, 1]]),
             (''reward'', Arr1 [2, 1]),
             (''done'', Arr1 [1, 0])] = Inl (KeyError ''task_action'')"
    by (simp add: read_batch_def lookup_def as_rows_def)
  have "train_iteration ex_torch (sample ex_buffer) eager_sac ex_rng
          = Inl (KeyError ''task_action'')"
    by (simp add: train_iteration_def c s r)
  then have "train_on ex_torch eager_sac ex_buffer ex_rng = Inl (KeyError ''task_action'')"
    using c by (simp add: train_on_def train_def)
  with s c show ?thesis by simp
qed

section \<open>Properties of acting and of the fresh samples\<close>

lemma length_take_normals: "length (take_normals f p ns) = length ns"
  by (induction ns arbitrary: p) simp_all

lemma length_Normal_sample:
  "length sigma = length mu \<Longrightarrow> length (fst (Normal_sample g mu sigma)) = length mu"
  by (simp add: Normal_sample_def Let_def length_take_normals)

lemma Actor_forward_lengths:
  "length (fst (Actor_forward T \<theta> x)) = length x"
  "length (snd (Actor_forward T \<theta> x)) = length x"
  by (simp_all add: Actor_forward_def Let_def)

lemma Actor_forward_with_lengths:
  "length (fst (Actor_forward_with ops T \<theta> x)) = length x"
  "length (snd (Actor_forward_with ops T \<theta> x)) = length x"
  by (simp_all add: Actor_forward_with_def Let_def)

lemma closed_bounded_f_tanh:
  assumes "\<forall>x. - 1 \<le> f_tanh ops x \<and> f_tanh ops x \<le> 1"
  shows "closed_bounded (map (map (f_tanh ops)) z)"
  using assms by (simp add: closed_bounded_def list_all_iff)

lemma Actor_forward_with_bounded:
  assumes "\<forall>x. - 1 \<le> f_tanh ops x \<and> f_tanh ops x \<le> 1"
  shows "closed_bounded (fst (Actor_forward_with ops T \<theta> x))"
  using assms
  by (auto simp add: closed_bounded_def list_all_iff Actor_forward_with_def Let_def)

lemma get_action_sample_with_props:
  assumes "\<forall>x. - 1 \<le> f_tanh ops x \<and> f_tanh ops x \<le> 1"
      and "closed_bounded mu" and "length log_sigma = length mu"
      and "get_action_sample_with ops deterministic g mu log_sigma = Inr (a, g')"
  shows "closed_bounded a" and "length a = length mu"
proof -
  have l: "length (fst (Normal_sample g mu (map (map (f_exp ops)) log_sigma))) = length mu"
    using assms(3) by (intro length_Normal_sample) simp
  show "closed_bounded a"
    using assms(2,4) closed_bounded_f_tanh [OF assms(1)]
    by (auto simp add: get_action_sample_with_def Let_def case_prod_beta split: if_splits)
  show "length a = length mu"
    using assms(4) l
    by (auto simp add: get_action_sample_with_def Let_def case_prod_beta split: if_splits)
qed

lemma get_action_sample_with_returns:
  assumes "deterministic \<or> valid_scale (map (map (f_exp ops)) log_sigma)"
  shows "\<exists>r. get_action_sample_with ops deterministic g mu log_sigma = Inr r"
  using assms
  by (auto simp add: get_action_sample_with_def Let_def case_prod_beta)

lemma float32_tanh_range: "- 1 \<le> f_tanh float32_ops x \<and> f_tanh float32_ops x \<le> 1"
  using tanh_real_lt_1 [of x] tanh_real_gt_neg1 [of x]
  by (simp add: float32_ops_def)

lemma valid_scale_exp: "valid_scale (map (map exp) log_sigma)"
  by (simp add: valid_scale_def list_all_iff)

text \<open>Over the exact arithmetic \<open>get_action_with\<close> is \<open>get_action\<close>.\<close>

lemma get_action_with_exact:
  "get_action_with exact_ops T s state deterministic g = get_action T s state deterministic g"
proof -
  have a: "Actor_forward_with exact_ops T \<theta> x = Actor_forward T \<theta> x" for \<theta> x
    by (simp add: Actor_forward_with_def Actor_forward_def exact_ops_def)
  have b: "get_action_sample_with exact_ops deterministic g0 mu ls
             = Inr (get_action_sample deterministic g0 mu ls)" for g0 mu ls
    by (simp add: get_action_sample_with_def get_action_sample_def exact_ops_def
        valid_scale_exp Let_def case_prod_beta)
  show ?thesis
    by (simp add: get_action_with_def get_action_def a b Let_def case_prod_beta
        cong: if_cong)
qed

text \<open>An underflowed scale: the log-std -104 gives the scale 0 and \<^verbatim>\<open>Normal\<close> raises.\<close>

lemma get_action_with_underflow:
  "get_action_with float32_ops narrow_torch ex_sac [[0]] False ex_rng = Inl ValueError"
  by (simp add: get_action_with_def Actor_forward_with_def get_action_sample_with_def
      valid_scale_def float32_ops_def narrow_torch_def ex_torch_def ex_sac_def SAC_init_def
      Let_def)

text \<open>
  C7, as stated, fails in float32: \<^verbatim>\<open>tanh\<close> saturates. An actor whose mean head has the
  pre-activation 10 returns, in deterministic mode, the mean \<open>tanh 10\<close>, which is exactly 1
  in float32; in stochastic mode, with the log-std 10 and the normal draw 1, the pre-squash
  value is \<open>1 + exp 10\<close> and the action again exactly 1. In both cases the task action and
  the executed action have the component 1, which is not strictly below 1.
\<close>

theorem get_action_saturates_counterexample:
  "get_action_with float32_ops ex_torch sat_sac [[0]] True ex_rng
     = Inr (([[1]], [[1]]), ex_rng)
   \<and> get_action_with float32_ops wide_torch sat_sac [[0]] False one_rng
     = Inr (([[1]], [[1]]), one_rng\<lparr>normals_used := 1\<rparr>)
   \<and> \<not> (1::real) < 1"
proof -
  have t: "f_tanh float32_ops 10 = 1"
    by (simp add: float32_ops_def)
  have e: "f_exp float32_ops 10 = exp 10"
    by (simp add: float32_ops_def)
  have ge: "(10::real) \<le> 1 + exp 10"
    using exp_ge_add_one_self [of "10::real"] by simp
  then have tz: "f_tanh float32_ops (1 + exp 10) = 1"
    by (simp add: float32_ops_def)
  have c: "policy_net sat_sac = [10]" "use_recovery (cfg sat_sac)"
    "Q_risk_net sat_sac = [0]" "risk_thresh (cfg sat_sac) = 1 / 10"
    by (simp_all add: sat_sac_def ex_sac_def SAC_init_def)
  have a1: "Actor_forward_with float32_ops ex_torch [10] [[0]] = ([[1]], [[0]])"
    by (simp add: Actor_forward_with_def ex_torch_def Let_def t)
  have a2: "Actor_forward_with float32_ops wide_torch [10] [[0]] = ([[1]], [[10]])"
    by (simp add: Actor_forward_with_def wide_torch_def ex_torch_def Let_def t)
  have q1: "Q_forward ex_torch [0] [[0]] [[1]] = [1]"
    by (simp add: Q_forward_def ex_torch_def)
  have q2: "Q_forward wide_torch [0] [[0]] [[1]] = [1]"
    by (simp add: Q_forward_def wide_torch_def ex_torch_def)
  have n: "Normal_sample one_rng [[1]] [[exp 10]]
             = ([[1 + exp 10]], one_rng\<lparr>normals_used := 1\<rparr>)"
    by (simp add: Normal_sample_def Let_def one_rng_def ex_rng_def)
  have s2: "get_action_sample_with float32_ops False one_rng [[1]] [[10]]
              = Inr ([[1]], one_rng\<lparr>normals_used := 1\<rparr>)"
    by (simp add: get_action_sample_with_def Let_def e valid_scale_def n tz)
  have d: "get_action_with float32_ops ex_torch sat_sac [[0]] True ex_rng
     = Inr (([[1]], [[1]]), ex_rng)"
    by (simp add: get_action_with_def c a1 get_action_sample_with_def q1 py_get_def Let_def)
  have st: "get_action_with float32_ops wide_torch sat_sac [[0]] False one_rng
     = Inr (([[1]], [[1]]), one_rng\<lparr>normals_used := 1\<rparr>)"
    by (simp add: get_action_with_def c a2 s2 q2 py_get_def Let_def)
  from d st show ?thesis by simp
qed

text \<open>
  C7, amended: for a non-empty batch of states and an arithmetic whose \<^verbatim>\<open>tanh\<close> takes its
  values in the closed interval from -1 to 1 (as the exact and the float32 \<^verbatim>\<open>tanh\<close> do),
  every pair of action batches that \<^verbatim>\<open>get_action\<close> returns has one row per state and
  every component of both lies in the closed interval from -1 to 1, in the stochastic and in
  the deterministic mode. The call returns in deterministic mode, and in stochastic mode
  whenever the scales \<open>exp (log_std)\<close> of both actors are positive.
\<close>

theorem get_action_with_bounded:
  assumes "\<forall>x. - 1 \<le> f_tanh ops x \<and> f_tanh ops x \<le> 1"
      and "state \<noteq> []"
  shows "(\<forall>task_action action g'.
            get_action_with ops T s state deterministic g = Inr ((task_action, action), g')
            \<longrightarrow> length task_action = length state \<and> length action = length state
                \<and> closed_bounded task_action \<and> closed_bounded action)
       \<and> (deterministic
            \<or> valid_scale (map (map (f_exp ops))
                 (snd (Actor_forward_with ops T (policy_net s) state)))
              \<and> valid_scale (map (map (f_exp ops))
                   (snd (Actor_forward_with ops T (policy_recovery_net s) state)))
          \<longrightarrow> (\<exists>r. get_action_with ops T s state deterministic g = Inr r))"
proof -
  define mu_task where "mu_task = fst (Actor_forward_with ops T (policy_net s) state)"
  define ls_task where "ls_task = snd (Actor_forward_with ops T (policy_net s) state)"
  define mu_rec where "mu_rec = fst (Actor_forward_with ops T (policy_recovery_net s) state)"
  define ls_rec where "ls_rec = snd (Actor_forward_with ops T (policy_recovery_net s) state)"
  have lt: "length mu_task = length state" "length ls_task = length mu_task"
    by (simp_all add: mu_task_def ls_task_def Actor_forward_with_lengths)
  have lr: "length mu_rec = length state" "length ls_rec = length mu_rec"
    by (simp_all add: mu_rec_def ls_rec_def Actor_forward_with_lengths)
  have bt: "closed_bounded mu_task" "closed_bounded mu_rec"
    by (simp_all add: mu_task_def mu_rec_def Actor_forward_with_bounded [OF assms(1)])
  have unfold: "get_action_with ops T s state deterministic g =
      bnd (get_action_sample_with ops deterministic g mu_task ls_task)
           (\<lambda>(task_action, g1).
         if use_recovery (cfg s) then
           bnd (py_get (Q_forward T (Q_risk_net s) state task_action) 0) (\<lambda>risk0.
                 if risk0 < - risk_thresh (cfg s) then
                   bnd (get_action_sample_with ops deterministic g1 mu_rec ls_rec)
                         (\<lambda>(action, g2). Inr ((task_action, action), g2))
                 else Inr ((task_action, task_action), g1))
         else Inr ((task_action, task_action), g1))"
    by (simp add: get_action_with_def Let_def case_prod_beta mu_task_def ls_task_def
        mu_rec_def ls_rec_def cong: if_cong)
  have part1: "length ta = length state \<and> length a = length state
                \<and> closed_bounded ta \<and> closed_bounded a"
    if r: "get_action_with ops T s state deterministic g = Inr ((ta, a), g')" for ta a g'
  proof -
    from r obtain ta0 g1 where
      s1: "get_action_sample_with ops deterministic g mu_task ls_task = Inr (ta0, g1)"
      unfolding unfold
      by (cases "get_action_sample_with ops deterministic g mu_task ls_task") auto
    note p1 = get_action_sample_with_props [OF assms(1) bt(1) lt(2) s1]
    show ?thesis
    proof (cases "use_recovery (cfg s)
                  \<and> Q_forward T (Q_risk_net s) state ta0 ! 0 < - risk_thresh (cfg s)")
      case True
      have len: "0 < length (Q_forward T (Q_risk_net s) state ta0)"
        using assms(2) p1(2) lt(1) by (simp add: Q_forward_def)
      from r True len obtain a0 g2 where
        s2: "get_action_sample_with ops deterministic g1 mu_rec ls_rec = Inr (a0, g2)"
        and eq: "ta = ta0" "a = a0"
        unfolding unfold s1
        by (cases "get_action_sample_with ops deterministic g1 mu_rec ls_rec")
          (auto simp add: py_get_def)
      note p2 = get_action_sample_with_props [OF assms(1) bt(2) lr(2) s2]
      from p1 p2 eq lt(1) lr(1) show ?thesis by simp
    next
      case False
      have len: "0 < length (Q_forward T (Q_risk_net s) state ta0)"
        using assms(2) p1(2) lt(1) by (simp add: Q_forward_def)
      from r False len have "ta = ta0" "a = ta0"
        unfolding unfold s1 by (auto simp add: py_get_def split: if_splits)
      with p1 lt(1) show ?thesis by simp
    qed
  qed
  have part2: "\<exists>r. get_action_with ops T s state deterministic g = Inr r"
    if v: "deterministic
            \<or> valid_scale (map (map (f_exp ops)) ls_task)
              \<and> valid_scale (map (map (f_exp ops)) ls_rec)"
  proof -
    from v have "deterministic \<or> valid_scale (map (map (f_exp ops)) ls_task)" by blast
    from get_action_sample_with_returns [OF this, of g mu_task]
    obtain ta0 g1 where
      s1: "get_action_sample_with ops deterministic g mu_task ls_task = Inr (ta0, g1)"
      by auto
    note p1 = get_action_sample_with_props [OF assms(1) bt(1) lt(2) s1]
    have len: "0 < length (Q_forward T (Q_risk_net s) state ta0)"
      using assms(2) p1(2) lt(1) by (simp add: Q_forward_def)
    from v have "deterministic \<or> valid_scale (map (map (f_exp ops)) ls_rec)" by blast
    from get_action_sample_with_returns [OF this, of g1 mu_rec]
    obtain a0 g2 where
      s2: "get_action_sample_with ops deterministic g1 mu_rec ls_rec = Inr (a0, g2)"
      by auto
    show ?thesis
      unfolding unfold s1 using len by (simp add: py_get_def s2)
  qed
  from part1 part2 show ?thesis
    unfolding ls_task_def ls_rec_def by blast
qed

theorem get_action_with_bounded_witness:
  "(\<forall>x. - 1 \<le> f_tanh float32_ops x \<and> f_tanh float32_ops x \<le> 1)
   \<and> [[0 :: real]] \<noteq> []
   \<and> get_action_with float32_ops wide_torch sat_sac [[0]] False one_rng
       = Inr (([[1]], [[1]]), one_rng\<lparr>normals_used := 1\<rparr>)
   \<and> length [[1 :: real]] = length [[0 :: real]]
   \<and> closed_bounded [[1]]"
proof -
  have h1: "\<forall>x. - 1 \<le> f_tanh float32_ops x \<and> f_tanh float32_ops x \<le> 1"
    using float32_tanh_range by blast
  have h2: "[[0 :: real]] \<noteq> []" by simp
  have t: "f_tanh float32_ops 10 = 1"
    by (simp add: float32_ops_def)
  have e: "f_exp float32_ops 10 = exp 10"
    by (simp add: float32_ops_def)
  have ge: "(10::real) \<le> 1 + exp 10"
    using exp_ge_add_one_self [of "10::real"] by simp
  then have tz: "f_tanh float32_ops (1 + exp 10) = 1"
    by (simp add: float32_ops_def)
  have c: "policy_net sat_sac = [10]" "use_recovery (cfg sat_sac)"
    "Q_risk_net sat_sac = [0]" "risk_thresh (cfg sat_sac) = 1 / 10"
    by (simp_all add: sat_sac_def ex_sac_def SAC_init_def)
  have a2: "Actor_forward_with float32_ops wide_torch [10] [[0]] = ([[1]], [[10]])"
    by (simp add: Actor_forward_with_def wide_torch_def ex_torch_def Let_def t)
  have q2: "Q_forward wide_torch [0] [[0]] [[1]] = [1]"
    by (simp add: Q_forward_def wide_torch_def ex_torch_def)
  have n: "Normal_sample one_rng [[1]] [[exp 10]]
             = ([[1 + exp 10]], one_rng\<lparr>normals_used := 1\<rparr>)"
    by (simp add: Normal_sample_def Let_def one_rng_def ex_rng_def)
  have s2: "get_action_sample_with float32_ops False one_rng [[1]] [[10]]
              = Inr ([[1]], one_rng\<lparr>normals_used := 1\<rparr>)"
    by (simp add: get_action_sample_with_def Let_def e valid_scale_def n tz)
  have st: "get_action_with float32_ops wide_torch sat_sac [[0]] False one_rng
     = Inr (([[1]], [[1]]), one_rng\<lparr>normals_used := 1\<rparr>)"
    by (simp add: get_action_with_def c a2 s2 q2 py_get_def Let_def)
  from get_action_with_bounded
    [OF h1 h2, where T = wide_torch and s = sat_sac and deterministic = False
       and g = one_rng, THEN conjunct1, rule_format, OF st]
  have "length [[1 :: real]] = length [[0 :: real]] \<and> closed_bounded [[1]]"
    by simp
  with h1 h2 st show ?thesis by blast
qed

text \<open>
  C2 on the code: the gate of \<^verbatim>\<open>get_action\<close> reads the risk of the first row only. For
  the two states \<open>[0]\<close> and \<open>[-1]\<close> the risk estimates of the task actions are \<open>0\<close> and
  \<open>-1\<close>; the threshold is \<open>1/10\<close>. The first row is above \<open>-1/10\<close>, so the whole batch
  executes the task action: the second row, whose risk \<open>-1\<close> is below \<open>-1/10\<close>, executes
  the task action \<open>[0]\<close> and not the recovery sample \<open>[tanh (tanh 1)]\<close>.
\<close>

theorem get_action_gates_on_first_row:
  "get_action ex_torch ex_sac [[0], [- 1]] False ex_rng
     = Inr (([[0], [0]], [[0], [0]]), ex_rng\<lparr>normals_used := 2\<rparr>)
   \<and> Q_forward ex_torch (Q_risk_net ex_sac) [[0], [- 1]] [[0], [0]] = [0, - 1]
   \<and> (- 1 :: real) < - risk_thresh (cfg ex_sac)
   \<and> fst (get_action_sample False (ex_rng\<lparr>normals_used := 2\<rparr>)
          (fst (Actor_forward ex_torch (policy_recovery_net ex_sac) [[0], [- 1]]))
          (snd (Actor_forward ex_torch (policy_recovery_net ex_sac) [[0], [- 1]])))
       = [[tanh (tanh 1)], [tanh (tanh 1)]]
   \<and> tanh (tanh 1) \<noteq> (0::real)"
proof -
  have a: "Actor_forward ex_torch (policy_net ex_sac) [[0], [- 1]] = ([[0], [0]], [[0], [0]])"
    by (simp add: Actor_forward_def ex_torch_def ex_sac_def SAC_init_def Let_def)
  have b: "get_action_sample False ex_rng [[0], [0]] [[0], [0]]
             = ([[0], [0]], ex_rng\<lparr>normals_used := 2\<rparr>)"
    by (simp add: get_action_sample_def Normal_sample_def Let_def ex_rng_def)
  have c: "Q_forward ex_torch (Q_risk_net ex_sac) [[0], [- 1]] [[0], [0]] = [0, - 1]"
    by (simp add: Q_forward_def ex_torch_def ex_sac_def SAC_init_def)
  have d: "risk_thresh (cfg ex_sac) = 1 / 10" "use_recovery (cfg ex_sac)"
    by (simp_all add: ex_sac_def SAC_init_def)
  have e: "get_action ex_torch ex_sac [[0], [- 1]] False ex_rng
     = Inr (([[0], [0]], [[0], [0]]), ex_rng\<lparr>normals_used := 2\<rparr>)"
    by (simp add: get_action_def a b c d py_get_def)
  have f: "Actor_forward ex_torch (policy_recovery_net ex_sac) [[0], [- 1]]
             = ([[tanh 1], [tanh 1]], [[0], [0]])"
    by (simp add: Actor_forward_def ex_torch_def ex_sac_def SAC_init_def Let_def)
  have g: "fst (get_action_sample False (ex_rng\<lparr>normals_used := 2\<rparr>)
                 [[tanh 1], [tanh 1]] [[0], [0]])
             = [[tanh (tanh 1)], [tanh (tanh 1)]]"
    by (simp add: get_action_sample_def Normal_sample_def Let_def ex_rng_def)
  have h: "tanh (tanh 1) \<noteq> (0::real)"
    by simp
  from c d e f g h show ?thesis by simp
qed






lemma get_action_log_prob_mixed:
  assumes "use_recovery (cfg s)"
  shows "mixed_action (fst (get_action_log_prob T s state g))
     = map (map tanh) (z_recovery (fst (get_action_log_prob T s state g)))"
  and "z_recovery (fst (get_action_log_prob T s state g))
     = fst (Normal_sample
              (snd (Normal_sample g (fst (Actor_forward T (policy_net s) state))
                      (map (map exp) (snd (Actor_forward T (policy_net s) state)))))
              (fst (Actor_forward T (policy_recovery_net s) state))
              (map (map exp) (snd (Actor_forward T (policy_recovery_net s) state))))"
  and "mixed_log_prob (fst (get_action_log_prob T s state g))
     = log_prob_under T (min_Val (cfg s)) (policy_recovery_net s) state
         (z_recovery (fst (get_action_log_prob T s state g)))"
  using assms by (simp_all add: get_action_log_prob_def Let_def case_prod_beta)



lemma Actor_forward_q_layers [simp]:
  "Actor_forward (T\<lparr>q_layers := q\<rparr>) \<theta> x = Actor_forward T \<theta> x"
  by (simp add: Actor_forward_def)

lemma log_prob_under_q_layers [simp]:
  "log_prob_under (T\<lparr>q_layers := q\<rparr>) mv \<theta> state z = log_prob_under T mv \<theta> state z"
  by (simp add: log_prob_under_def)

text \<open>
  C10: with recovery enabled, the mixed action returned by \<^verbatim>\<open>get_action_log_prob\<close> is the
  squashed draw of the recovery policy and the mixed log-probability is the log-probability
  of that draw under the recovery policy. Replacing the risk-Q network (its layers and its
  parameters) and the risk threshold by any others leaves the whole result unchanged: the
  threshold is not applied on this path.
\<close>

theorem mixed_sample_is_recovery:
  assumes "use_recovery (cfg s)"
  shows "mixed_action (fst (get_action_log_prob T s state g))
           = map (map tanh) (z_recovery (fst (get_action_log_prob T s state g)))
       \<and> z_recovery (fst (get_action_log_prob T s state g))
           = fst (Normal_sample
                    (snd (Normal_sample g (fst (Actor_forward T (policy_net s) state))
                            (map (map exp) (snd (Actor_forward T (policy_net s) state)))))
                    (fst (Actor_forward T (policy_recovery_net s) state))
                    (map (map exp) (snd (Actor_forward T (policy_recovery_net s) state))))
       \<and> mixed_log_prob (fst (get_action_log_prob T s state g))
           = log_prob_under T (min_Val (cfg s)) (policy_recovery_net s) state
               (z_recovery (fst (get_action_log_prob T s state g)))
       \<and> get_action_log_prob (T\<lparr>q_layers := q'\<rparr>)
             (s\<lparr>Q_risk_net := \<theta>', cfg := (cfg s)\<lparr>risk_thresh := t'\<rparr>\<rparr>) state g
           = get_action_log_prob T s state g"
proof -
  have "get_action_log_prob (T\<lparr>q_layers := q'\<rparr>)
             (s\<lparr>Q_risk_net := \<theta>', cfg := (cfg s)\<lparr>risk_thresh := t'\<rparr>\<rparr>) state g
           = get_action_log_prob T s state g"
    by (simp add: get_action_log_prob_def Let_def case_prod_beta)
  then show ?thesis
    using get_action_log_prob_mixed [OF assms, of T state g] by simp
qed

theorem mixed_sample_is_recovery_witness:
  "use_recovery (cfg ex_sac)
   \<and> mixed_action (fst (get_action_log_prob ex_torch ex_sac [[0], [- 1]] ex_rng))
       = [[tanh (tanh 1)], [tanh (tanh 1)]]
   \<and> get_action_log_prob (ex_torch\<lparr>q_layers := (\<lambda>\<theta> x a. - 5)\<rparr>)
         (ex_sac\<lparr>Q_risk_net := [7], cfg := (cfg ex_sac)\<lparr>risk_thresh := 100\<rparr>\<rparr>)
         [[0], [- 1]] ex_rng
       = get_action_log_prob ex_torch ex_sac [[0], [- 1]] ex_rng"
proof -
  have h: "use_recovery (cfg ex_sac)"
    by (simp add: ex_sac_def SAC_init_def)
  have a: "Actor_forward ex_torch (policy_net ex_sac) [[0], [- 1]] = ([[0], [0]], [[0], [0]])"
    by (simp add: Actor_forward_def ex_torch_def ex_sac_def SAC_init_def Let_def)
  have f: "Actor_forward ex_torch (policy_recovery_net ex_sac) [[0], [- 1]]
             = ([[tanh 1], [tanh 1]], [[0], [0]])"
    by (simp add: Actor_forward_def ex_torch_def ex_sac_def SAC_init_def Let_def)
  have z: "fst (Normal_sample (snd (Normal_sample ex_rng [[0], [0]] [[1], [1]]))
                  [[tanh 1], [tanh 1]] [[1], [1]]) = [[tanh 1], [tanh 1]]"
    by (simp add: Normal_sample_def Let_def ex_rng_def)
  note t = mixed_sample_is_recovery
    [OF h, where T = ex_torch and state = "[[0], [- 1]]" and g = ex_rng
       and q' = "\<lambda>\<theta> x a. - 5" and \<theta>' = "[7]" and t' = 100]
  from t have "mixed_action (fst (get_action_log_prob ex_torch ex_sac [[0], [- 1]] ex_rng))
       = [[tanh (tanh 1)], [tanh (tanh 1)]]"
    by (simp add: a f z)
  with t h show ?thesis by simp
qed

end
